theory Spec2Isabelle
  imports Main "HOL-Library.Word"
begin

unbundle bit_operations_syntax

section \<open>Bytes, addresses and layer types\<close>

text \<open>
  The program is the client side of a packet relay written in Go on top of the
  packet library gopacket. Go's fixed-width unsigned integers are words, a byte slice
  is a list of bytes, and \<^verbatim>\<open>net.IP\<close> and \<^verbatim>\<open>net.HardwareAddr\<close> are byte slices.
  A nil slice and an empty slice are both the empty list: the program only ever tests
  the result of \<^verbatim>\<open>To4\<close> and of the device accessors against nil, and those results
  are options here.
\<close>

type_synonym byte = "8 word"
type_synonym bytes = "byte list"
type_synonym uint8 = "8 word"
type_synonym uint16 = "16 word"
type_synonym uint32 = "32 word"
type_synonym IP = "byte list"
type_synonym HardwareAddr = "byte list"

text \<open>
  \<^verbatim>\<open>net.IP.To4\<close> of Go's standard library: a 4-byte address is returned as it is, a
  16-byte address with the IPv4-in-IPv6 prefix (ten zero bytes, then 0xff 0xff) gives
  its last four bytes, everything else is nil.
\<close>

definition To4 :: "IP \<Rightarrow> IP option" where
  "To4 ip =
     (if length ip = 4 then Some ip
      else if length ip = 16 \<and> take 10 ip = replicate 10 0
              \<and> ip ! 10 = 0xff \<and> ip ! 11 = 0xff then Some (drop 12 ip)
      else None)"

text \<open>
  \<^verbatim>\<open>net.IP.String\<close>: \<^verbatim>\<open><nil>\<close> for the empty slice, dotted decimal for an address
  that \<^verbatim>\<open>To4\<close> accepts, \<^verbatim>\<open>?\<close> and the hexadecimal digits for a slice that is not 16
  bytes long, and otherwise the eight 16-bit groups in hexadecimal, the first longest
  run of at least two zero groups written \<^verbatim>\<open>::\<close>.
\<close>

definition hexDigit :: "nat \<Rightarrow> char" where
  "hexDigit n = ''0123456789abcdef'' ! n"

definition ubtoa :: "byte \<Rightarrow> string" where
  "ubtoa v =
     (let n = unat v in
      if n < 10 then [hexDigit n]
      else if n < 100 then [hexDigit (n div 10), hexDigit (n mod 10)]
      else [hexDigit (n div 100), hexDigit (n div 10 mod 10), hexDigit (n mod 10)])"

definition hexString :: "bytes \<Rightarrow> string" where
  "hexString b = concat (map (\<lambda>v. [hexDigit (unat v div 16), hexDigit (unat v mod 16)]) b)"

definition appendHex :: "nat \<Rightarrow> string" where
  "appendHex i =
     (if i = 0 then ''0''
      else dropWhile (\<lambda>c. c = CHR ''0'')
             [hexDigit (i div 4096 mod 16), hexDigit (i div 256 mod 16),
              hexDigit (i div 16 mod 16), hexDigit (i mod 16)])"

fun groups16 :: "bytes \<Rightarrow> nat list" where
  "groups16 (a # b # rest) = (unat a * 256 + unat b) # groups16 rest"
| "groups16 _ = []"

definition zeroRun :: "nat list \<Rightarrow> nat \<Rightarrow> nat" where
  "zeroRun gs i = length (takeWhile (\<lambda>g. g = 0) (drop i gs))"

text \<open>
  The start and the length (in groups) of the first longest run of zero groups; the
  length is 0 when there is none.
\<close>

definition longestZeroRun :: "nat list \<Rightarrow> nat \<times> nat" where
  "longestZeroRun gs =
     fold (\<lambda>i (e0, n). if n < zeroRun gs i then (i, zeroRun gs i) else (e0, n))
       [0..<length gs] (0, 0)"

fun joinColon :: "string list \<Rightarrow> string" where
  "joinColon [] = []"
| "joinColon [s] = s"
| "joinColon (s # t # rest) = s @ '':'' @ joinColon (t # rest)"

definition IP_String :: "IP \<Rightarrow> string" where
  "IP_String ip =
     (if length ip = 0 then ''<nil>''
      else case To4 ip of
        Some p4 \<Rightarrow> ubtoa (p4 ! 0) @ ''.'' @ ubtoa (p4 ! 1) @ ''.'' @ ubtoa (p4 ! 2) @ ''.''
                     @ ubtoa (p4 ! 3)
      | None \<Rightarrow>
          if length ip \<noteq> 16 then ''?'' @ hexString ip
          else let gs = groups16 ip; (e0, n) = longestZeroRun gs in
            if n \<le> 1 then joinColon (map appendHex gs)
            else joinColon (map appendHex (take e0 gs)) @ ''::''
                 @ joinColon (map appendHex (drop (e0 + n) gs)))"

text \<open>
  \<^verbatim>\<open>gopacket.LayerType\<close>: the layer types the program names, and every other one the
  library registers, by its number.
\<close>

datatype LayerType =
    LayerTypeIPv4 | LayerTypeIPv6 | LayerTypeTCP | LayerTypeUDP | LayerTypeICMPv4
  | LayerTypeLoopback | LayerTypeEthernet | LayerTypeOther nat

text \<open>Constants of gopacket's \<^verbatim>\<open>layers\<close> package, with their values.\<close>

definition IPv4DontFragment :: uint8 where "IPv4DontFragment = 2"
definition IPv4MoreFragments :: uint8 where "IPv4MoreFragments = 1"
definition IPProtocolTCP :: uint8 where "IPProtocolTCP = 6"
definition IPProtocolUDP :: uint8 where "IPProtocolUDP = 17"
definition EthernetTypeLLC :: uint16 where "EthernetTypeLLC = 0"
definition EthernetTypeIPv4 :: uint16 where "EthernetTypeIPv4 = 0x0800"

section \<open>Layers\<close>

text \<open>
  The layer structs of gopacket, with the fields the program sets or reads. Every
  layer embeds \<^verbatim>\<open>BaseLayer\<close>, whose field \<^verbatim>\<open>Contents\<close> is what \<^verbatim>\<open>LayerContents()\<close>
  returns: the decoder fills it with the bytes the layer was decoded from, and a layer
  built by a struct literal has it nil. The options of IPv4 and TCP are left out: no
  layer the program builds has any. The field \<^verbatim>\<open>Id\<close> of IPv4 is \<open>Id'\<close> and the field
  \<^verbatim>\<open>Seq\<close> of TCP is \<open>Seq'\<close> here.
\<close>

record IPv4 =
  Contents :: bytes
  Version :: uint8
  IHL :: uint8
  TOS :: uint8
  Length :: uint16
  Id' :: uint16
  Flags :: uint8
  FragOffset :: uint16
  TTL :: uint8
  Protocol :: uint8
  Checksum :: uint16
  SrcIP :: IP
  DstIP :: IP

record IPv6 =
  Contents :: bytes
  Version :: uint8
  TrafficClass :: uint8
  FlowLabel :: uint32
  Length :: uint16
  NextHeader :: uint8
  HopLimit :: uint8
  SrcIP :: IP
  DstIP :: IP

text \<open>
  A network layer is an IPv4 or an IPv6 layer, or a layer of another type (by the
  number of its type) with its contents; likewise a transport layer is a TCP or a UDP
  layer or a layer of another type.
\<close>

datatype NetworkLayer = NetIPv4 IPv4 | NetIPv6 IPv6 | NetOther nat bytes

text \<open>
  \<open>pseudoheader\<close> is the network layer that \<^verbatim>\<open>SetNetworkLayerForChecksum\<close> binds to a
  TCP or UDP layer (a pointer in Go; the bound header's value here).
\<close>

record TCP =
  Contents :: bytes
  SrcPort :: uint16
  DstPort :: uint16
  Seq' :: uint32
  Ack :: uint32
  DataOffset :: uint8
  FIN :: bool
  SYN :: bool
  RST :: bool
  PSH :: bool
  ACK :: bool
  URG :: bool
  ECE :: bool
  CWR :: bool
  NS :: bool
  Window :: uint16
  Checksum :: uint16
  Urgent :: uint16
  pseudoheader :: "NetworkLayer option"

record UDP =
  Contents :: bytes
  SrcPort :: uint16
  DstPort :: uint16
  Length :: uint16
  Checksum :: uint16
  pseudoheader :: "NetworkLayer option"

datatype TransportLayer = TransTCP TCP | TransUDP UDP | TransOther nat bytes

record Loopback =
  Family :: uint8

record Ethernet =
  SrcMAC :: HardwareAddr
  DstMAC :: HardwareAddr
  EthernetType :: uint16
  Length :: uint16

text \<open>Go's zero values of the structs: what a struct literal leaves unset.\<close>

definition IPv4_zero :: IPv4 where
  "IPv4_zero = \<lparr>IPv4.Contents = [], IPv4.Version = 0, IHL = 0, TOS = 0, IPv4.Length = 0,
     Id' = 0, Flags = 0, FragOffset = 0, TTL = 0, Protocol = 0, IPv4.Checksum = 0,
     IPv4.SrcIP = [], IPv4.DstIP = []\<rparr>"

definition TCP_zero :: TCP where
  "TCP_zero = \<lparr>TCP.Contents = [], TCP.SrcPort = 0, TCP.DstPort = 0, Seq' = 0, Ack = 0,
     DataOffset = 0, FIN = False, SYN = False, RST = False, PSH = False, ACK = False,
     URG = False, ECE = False, CWR = False, NS = False, Window = 0, TCP.Checksum = 0,
     Urgent = 0, TCP.pseudoheader = None\<rparr>"

definition UDP_zero :: UDP where
  "UDP_zero = \<lparr>UDP.Contents = [], UDP.SrcPort = 0, UDP.DstPort = 0, UDP.Length = 0,
     UDP.Checksum = 0, UDP.pseudoheader = None\<rparr>"

text \<open>
  \<^verbatim>\<open>LayerType()\<close> and \<^verbatim>\<open>LayerContents()\<close> of a network or transport layer, and the
  network layer a transport layer is bound to.
\<close>

fun NetworkLayer_LayerType :: "NetworkLayer \<Rightarrow> LayerType" where
  "NetworkLayer_LayerType (NetIPv4 l) = LayerTypeIPv4"
| "NetworkLayer_LayerType (NetIPv6 l) = LayerTypeIPv6"
| "NetworkLayer_LayerType (NetOther n c) = LayerTypeOther n"

fun NetworkLayer_LayerContents :: "NetworkLayer \<Rightarrow> bytes" where
  "NetworkLayer_LayerContents (NetIPv4 l) = IPv4.Contents l"
| "NetworkLayer_LayerContents (NetIPv6 l) = IPv6.Contents l"
| "NetworkLayer_LayerContents (NetOther n c) = c"

fun TransportLayer_LayerType :: "TransportLayer \<Rightarrow> LayerType" where
  "TransportLayer_LayerType (TransTCP l) = LayerTypeTCP"
| "TransportLayer_LayerType (TransUDP l) = LayerTypeUDP"
| "TransportLayer_LayerType (TransOther n c) = LayerTypeOther n"

fun TransportLayer_LayerContents :: "TransportLayer \<Rightarrow> bytes" where
  "TransportLayer_LayerContents (TransTCP l) = TCP.Contents l"
| "TransportLayer_LayerContents (TransUDP l) = UDP.Contents l"
| "TransportLayer_LayerContents (TransOther n c) = c"

fun TransportLayer_pseudoheader :: "TransportLayer \<Rightarrow> NetworkLayer option" where
  "TransportLayer_pseudoheader (TransTCP l) = TCP.pseudoheader l"
| "TransportLayer_pseudoheader (TransUDP l) = UDP.pseudoheader l"
| "TransportLayer_pseudoheader (TransOther n c) = None"

section \<open>The layer builder\<close>

text \<open>Every error the functions return or print, by the place that raises it.\<close>

datatype error =
    InvalidSourceIP IP
  | InvalidDestinationIP IP
  | TransportNotSupport LayerType
  | NetworkNotSupport LayerType
  | LinkNotSupport LayerType
  | MissingNetworkLayer
  | MissingTransportLayer
  | IPVersionTransitionNotSupport
  | IPv6NotSupport
  | EmptyPayload
  | TypeNotSupport
  | IPVersionNotSupport uint8
  | SerializeFailed

definition CreateTCPLayer :: "uint16 \<Rightarrow> uint16 \<Rightarrow> uint32 \<Rightarrow> uint32 \<Rightarrow> TCP" where
  "CreateTCPLayer srcPort dstPort seqv ackv =
     TCP_zero\<lparr>TCP.SrcPort := srcPort, TCP.DstPort := dstPort, Seq' := seqv, Ack := ackv,
       DataOffset := 5, PSH := True, ACK := True, Window := 65535\<rparr>"

definition FlagTCPLayer :: "TCP \<Rightarrow> bool \<Rightarrow> bool \<Rightarrow> bool \<Rightarrow> TCP" where
  "FlagTCPLayer layer syn psh ack = layer\<lparr>SYN := syn, PSH := psh, ACK := ack\<rparr>"

definition CreateUDPLayer :: "uint16 \<Rightarrow> uint16 \<Rightarrow> UDP" where
  "CreateUDPLayer srcPort dstPort = UDP_zero\<lparr>UDP.SrcPort := srcPort, UDP.DstPort := dstPort\<rparr>"

text \<open>
  \<^verbatim>\<open>CreateIPv4Layer\<close> returns the header or an error, and binds the transport layer it
  was given to the header (\<^verbatim>\<open>SetNetworkLayerForChecksum\<close>, which accepts every IPv4
  layer): the result holds the header and the transport layer as the call leaves it.
  The switch on the layer type of the transport layer is the case distinction here.
\<close>

definition CreateIPv4Layer ::
  "IP \<Rightarrow> IP \<Rightarrow> uint16 \<Rightarrow> uint8 \<Rightarrow> TransportLayer \<Rightarrow> error + (IPv4 \<times> TransportLayer)" where
  "CreateIPv4Layer srcIP dstIP idv ttl transportLayer =
     (if To4 srcIP = None then Inl (InvalidSourceIP srcIP)
      else if To4 dstIP = None then Inl (InvalidDestinationIP dstIP)
      else
        let ipv4Layer = IPv4_zero\<lparr>IPv4.Version := 4, IHL := 5, Id' := idv,
              Flags := IPv4DontFragment, TTL := ttl, IPv4.SrcIP := srcIP, IPv4.DstIP := dstIP\<rparr>
        in case transportLayer of
             TransTCP tcpLayer \<Rightarrow>
               let ipv4Layer = ipv4Layer\<lparr>Protocol := IPProtocolTCP\<rparr> in
               Inr (ipv4Layer, TransTCP (tcpLayer\<lparr>TCP.pseudoheader := Some (NetIPv4 ipv4Layer)\<rparr>))
           | TransUDP udpLayer \<Rightarrow>
               let ipv4Layer = ipv4Layer\<lparr>Protocol := IPProtocolUDP\<rparr> in
               Inr (ipv4Layer, TransUDP (udpLayer\<lparr>UDP.pseudoheader := Some (NetIPv4 ipv4Layer)\<rparr>))
           | TransOther n c \<Rightarrow> Inl (TransportNotSupport (LayerTypeOther n)))"

definition FlagIPv4Layer :: "IPv4 \<Rightarrow> bool \<Rightarrow> bool \<Rightarrow> uint16 \<Rightarrow> IPv4" where
  "FlagIPv4Layer layer df mf offset =
     (let layer = (if df then layer\<lparr>Flags := IPv4DontFragment\<rparr> else layer);
          layer = (if mf then layer\<lparr>Flags := IPv4MoreFragments\<rparr> else layer);
          layer = (if \<not> df \<and> \<not> mf then layer\<lparr>Flags := 0\<rparr> else layer)
      in layer\<lparr>FragOffset := offset\<rparr>)"

text \<open>The private constructors of the outbound pipeline.\<close>

definition createTCP :: "uint16 \<Rightarrow> uint16 \<Rightarrow> uint32 \<Rightarrow> TCP" where
  "createTCP srcPort dstPort seqv =
     TCP_zero\<lparr>TCP.SrcPort := srcPort, TCP.DstPort := dstPort, Seq' := seqv,
       DataOffset := 5, PSH := True, ACK := True\<rparr>"

definition createIPv4 :: "IP \<Rightarrow> IP \<Rightarrow> uint16 \<Rightarrow> uint8 \<Rightarrow> IPv4" where
  "createIPv4 srcIP dstIP idv ttl =
     IPv4_zero\<lparr>IPv4.Version := 4, IHL := 5, Id' := idv, Flags := IPv4DontFragment,
       TTL := ttl, Protocol := IPProtocolTCP, IPv4.SrcIP := srcIP, IPv4.DstIP := dstIP\<rparr>"

text \<open>Whether a flag bit is set in a flags field.\<close>

definition flagSet :: "uint8 \<Rightarrow> uint8 \<Rightarrow> bool" where
  "flagSet flag flags = (flags AND flag \<noteq> 0)"

section \<open>Serialization\<close>

text \<open>
  gopacket's \<^verbatim>\<open>SerializeLayers\<close> with the empty \<^verbatim>\<open>SerializeOptions\<close> (no length fixup,
  no checksum computation), as both pipelines call it: the buffer is cleared and the
  layers are written last to first, each \<^verbatim>\<open>SerializeTo\<close> prepending its header to the
  buffer. The layers are the five the pipelines serialize.
\<close>

definition be16 :: "uint16 \<Rightarrow> bytes" where
  "be16 v = [ucast (drop_bit 8 v), ucast v]"

definition be32 :: "uint32 \<Rightarrow> bytes" where
  "be32 v = [ucast (drop_bit 24 v), ucast (drop_bit 16 v), ucast (drop_bit 8 v), ucast v]"

definition le32 :: "uint32 \<Rightarrow> bytes" where
  "le32 v = [ucast v, ucast (drop_bit 8 v), ucast (drop_bit 16 v), ucast (drop_bit 24 v)]"

datatype SerializableLayer =
    SLoopback Loopback | SEthernet Ethernet | SIPv4 IPv4 | STCP TCP | SPayload bytes

text \<open>The 16 bits of a TCP header that hold the data offset and the nine flags.\<close>

definition flagsAndOffset :: "TCP \<Rightarrow> uint16" where
  "flagsAndOffset t =
     push_bit 12 (ucast (DataOffset t))
       OR (if FIN t then 0x0001 else 0) OR (if SYN t then 0x0002 else 0)
       OR (if RST t then 0x0004 else 0) OR (if PSH t then 0x0008 else 0)
       OR (if ACK t then 0x0010 else 0) OR (if URG t then 0x0020 else 0)
       OR (if ECE t then 0x0040 else 0) OR (if CWR t then 0x0080 else 0)
       OR (if NS t then 0x0100 else 0)"

definition flagsfrags :: "IPv4 \<Rightarrow> uint16" where
  "flagsfrags ip = push_bit 13 (ucast (Flags ip)) OR FragOffset ip"

text \<open>The 20 bytes of a TCP header without options, and of an IPv4 header without.\<close>

definition TCP_header :: "TCP \<Rightarrow> bytes" where
  "TCP_header t =
     be16 (TCP.SrcPort t) @ be16 (TCP.DstPort t) @ be32 (Seq' t) @ be32 (Ack t)
     @ be16 (flagsAndOffset t) @ be16 (Window t) @ be16 (TCP.Checksum t) @ be16 (Urgent t)"

definition IPv4_header :: "IPv4 \<Rightarrow> IP \<Rightarrow> IP \<Rightarrow> bytes" where
  "IPv4_header ip src dst =
     [push_bit 4 (IPv4.Version ip) OR IHL ip, TOS ip] @ be16 (IPv4.Length ip) @ be16 (Id' ip)
     @ be16 (flagsfrags ip) @ [TTL ip, Protocol ip] @ be16 (IPv4.Checksum ip) @ src @ dst"

text \<open>
  \<^verbatim>\<open>SerializeTo\<close> of each layer, from the buffer to the buffer with the layer written,
  or the error. Loopback writes its family as four little-endian bytes. Ethernet
  refuses an address that is not six bytes long, writes the length instead of the type
  for an LLC frame, and pads the buffer with zero bytes to 60 bytes. IPv4 refuses an
  address that \<^verbatim>\<open>To4\<close> does not accept.
\<close>

fun SerializeTo :: "SerializableLayer \<Rightarrow> bytes \<Rightarrow> error + bytes" where
  "SerializeTo (SLoopback l) b = Inr (le32 (ucast (Family l)) @ b)"
| "SerializeTo (SEthernet eth) b =
     (if length (DstMAC eth) \<noteq> 6 then Inl SerializeFailed
      else if length (SrcMAC eth) \<noteq> 6 then Inl SerializeFailed
      else if Ethernet.Length eth \<noteq> 0 \<or> EthernetType eth = EthernetTypeLLC then
        (if EthernetType eth \<noteq> EthernetTypeLLC then Inl SerializeFailed
         else if 0x0600 < Ethernet.Length eth then Inl SerializeFailed
         else
           let b = DstMAC eth @ SrcMAC eth @ be16 (Ethernet.Length eth) @ b in
           Inr (if length b < 60 then b @ replicate (60 - length b) 0 else b))
      else
        let b = DstMAC eth @ SrcMAC eth @ be16 (EthernetType eth) @ b in
        Inr (if length b < 60 then b @ replicate (60 - length b) 0 else b))"
| "SerializeTo (SIPv4 ip) b =
     (case To4 (IPv4.SrcIP ip) of
        None \<Rightarrow> Inl SerializeFailed
      | Some src \<Rightarrow>
          (case To4 (IPv4.DstIP ip) of
             None \<Rightarrow> Inl SerializeFailed
           | Some dst \<Rightarrow> Inr (IPv4_header ip src dst @ b)))"
| "SerializeTo (STCP t) b = Inr (TCP_header t @ b)"
| "SerializeTo (SPayload c) b = Inr (c @ b)"

fun SerializeFrom :: "SerializableLayer list \<Rightarrow> bytes \<Rightarrow> error + bytes" where
  "SerializeFrom [] b = Inr b"
| "SerializeFrom (layer # ls) b =
     (case SerializeFrom ls b of
        Inl e \<Rightarrow> Inl e
      | Inr b' \<Rightarrow> SerializeTo layer b')"

definition SerializeLayers :: "SerializableLayer list \<Rightarrow> error + bytes" where
  "SerializeLayers ls = SerializeFrom ls []"

section \<open>The checksum engine\<close>

text \<open>
  Modelled from the spec: the functions \<^verbatim>\<open>checkSum\<close> and \<^verbatim>\<open>CheckTCPIPv4Sum\<close> that the
  outbound pipeline calls are defined outside the file of the pipelines and are not
  at hand. The spec's section 4.B gives them: the
  IP header checksum is the one's-complement sum over the 16-bit words of its
  argument with the checksum field treated as zero, folded and complemented; the TCP
  checksum is the same sum over the IPv4 pseudo-header (source, destination, zero,
  protocol 6, TCP length), the TCP header with a zero checksum and the payload, an odd
  length padded on the right with a zero byte. The pipelines below take the two
  functions as parameters, so that what is proved of them holds for every
  implementation; the definitions \<open>checkSum_spec\<close> and \<open>CheckTCPIPv4Sum_spec\<close> are
  what the examples run.
\<close>

fun sum16 :: "bytes \<Rightarrow> nat" where
  "sum16 (a # b # rest) = unat a * 256 + unat b + sum16 rest"
| "sum16 [a] = unat a * 256"
| "sum16 [] = 0"

function fold16 :: "nat \<Rightarrow> nat" where
  "fold16 n = (if n < 65536 then n else fold16 (n mod 65536 + n div 65536))"
  by pat_completeness auto
termination
proof (relation "measure (\<lambda>n. n)")
  show "wf (measure (\<lambda>n. n))"
    by simp
next
  fix n :: nat
  assume big: "\<not> n < 65536"
  have split: "n = 65536 * (n div 65536) + n mod 65536"
    by simp
  have "0 < n div 65536"
    using big by (simp add: div_greater_zero_iff)
  then have "n mod 65536 + n div 65536 < 65536 * (n div 65536) + n mod 65536"
    by linarith
  then have "n mod 65536 + n div 65536 < n"
    using split by linarith
  then show "(n mod 65536 + n div 65536, n) \<in> measure (\<lambda>n. n)"
    by simp
qed

declare fold16.simps [simp del]

definition checkSum_spec :: "bytes \<Rightarrow> uint16" where
  "checkSum_spec data = NOT (of_nat (fold16 (sum16 (data[10 := 0, 11 := 0]))))"

definition pseudoHeader :: "IP \<Rightarrow> IP \<Rightarrow> nat \<Rightarrow> bytes" where
  "pseudoHeader src dst n = src @ dst @ [0, IPProtocolTCP] @ be16 (of_nat n)"

definition CheckTCPIPv4Sum_spec :: "TCP \<Rightarrow> bytes \<Rightarrow> IPv4 \<Rightarrow> uint16" where
  "CheckTCPIPv4Sum_spec layer contents ipv4Layer =
     (let header = TCP_header (layer\<lparr>TCP.Checksum := 0\<rparr>) in
      NOT (of_nat (fold16 (sum16
        (pseudoHeader (IPv4.SrcIP ipv4Layer) (IPv4.DstIP ipv4Layer)
           (length header + length contents) @ header @ contents)))))"

text \<open>
  What a receiver checks: the one's-complement sum of the IPv4 header, its checksum
  field included, is all ones; and so is the sum of the pseudo-header and the TCP
  segment (header and payload).
\<close>

definition ipv4ChecksumVerifies :: "bytes \<Rightarrow> bool" where
  "ipv4ChecksumVerifies header = (fold16 (sum16 header) = 0xFFFF)"

definition tcpChecksumVerifies :: "IP \<Rightarrow> IP \<Rightarrow> bytes \<Rightarrow> bool" where
  "tcpChecksumVerifies src dst segment =
     (fold16 (sum16 (pseudoHeader src dst (length segment) @ segment)) = 0xFFFF)"

section \<open>Devices, packets and the proxy\<close>

record IPNet =
  IP :: IP
  Mask :: bytes

record Device =
  Name :: string
  FriendlyName :: string
  IPAddrs :: "IPNet list"
  HardwareAddr :: HardwareAddr
  IsLoop :: bool

text \<open>
  Modelled from the spec: the accessors \<^verbatim>\<open>IPv4()\<close> and \<^verbatim>\<open>IPv6()\<close> of \<^verbatim>\<open>Device\<close> are
  defined with the device, outside the file of the pipelines, and are not at hand.
  The spec's data model gives them: they return the first IPv4 and the
  first IPv6 address of the device if present. The pipeline reads the address of the
  result and tests it against nil; the absent address is \<open>None\<close>.
\<close>

definition Device_IPv4 :: "Device \<Rightarrow> IP option" where
  "Device_IPv4 dev =
     (case filter (\<lambda>a. To4 (IP a) \<noteq> None) (IPAddrs dev) of
        [] \<Rightarrow> None
      | a # rest \<Rightarrow> Some (IP a))"

definition Device_IPv6 :: "Device \<Rightarrow> IP option" where
  "Device_IPv6 dev =
     (case filter (\<lambda>a. To4 (IP a) = None \<and> length (IP a) = 16) (IPAddrs dev) of
        [] \<Rightarrow> None
      | a # rest \<Rightarrow> Some (IP a))"

text \<open>
  A capture handle is a pointer in Go: its identity is a number. A decoded packet
  (\<^verbatim>\<open>gopacket.Packet\<close>) is its network, transport and application layer, each absent
  when the accessor returns nil; the application layer is its contents.
\<close>

type_synonym Handle = nat

record Packet =
  NetworkLayer :: "NetworkLayer option"
  TransportLayer :: "TransportLayer option"
  ApplicationLayer :: "bytes option"

text \<open>
  \<^verbatim>\<open>Quintuple\<close> is declared outside the file of the pipelines; its fields are those the
  pipelines fill: the
  addresses as strings, the ports, and a layer type as the protocol.
\<close>

record Quintuple =
  SrcIP :: string
  SrcPort :: uint16
  DstIP :: string
  DstPort :: uint16
  Protocol :: LayerType

text \<open>
  The proxy. The id counter and the NAT table are \<open>id'\<close> and \<open>nat'\<close> here. The two
  pipelines run one packet at a time; what two capture loops do to the counters and
  the table at the same moment is outside this model.
\<close>

record Pcap =
  ListenPort :: uint16
  UpPort :: uint16
  ServerIP :: IP
  ServerPort :: uint16
  ListenDevs :: "Device list"
  UpDev :: Device
  GatewayDev :: Device
  listenHandles :: "Handle list"
  upHandle :: Handle
  seq :: uint32
  id' :: uint16
  nat' :: "Quintuple \<rightharpoonup> Handle"

text \<open>
  What a pipeline did with a packet: it printed an error and returned before writing
  (\<open>Dropped\<close>), it handed a frame to \<^verbatim>\<open>WritePacketData\<close> of a handle (\<open>Written\<close>), or
  the Go runtime panicked.
\<close>

datatype outcome = Dropped error | Written Handle bytes | Panicked

text \<open>\<^verbatim>\<open>p.GatewayDev.IPAddrs[0].IP\<close>: an index out of range panics.\<close>

definition gatewayDevIP :: "Pcap \<Rightarrow> IP option" where
  "gatewayDevIP p =
     (case IPAddrs (GatewayDev p) of
        [] \<Rightarrow> None
      | a # rest \<Rightarrow> Some (IP a))"

section \<open>The outbound pipeline\<close>

text \<open>The addresses and the TTL that \<^verbatim>\<open>handleListen\<close> reads from the network layer.\<close>

fun listenNetwork :: "NetworkLayer \<Rightarrow> error + (IP \<times> IP \<times> uint8)" where
  "listenNetwork (NetIPv4 ipv4Layer) =
     Inr (IPv4.SrcIP ipv4Layer, IPv4.DstIP ipv4Layer, TTL ipv4Layer)"
| "listenNetwork (NetIPv6 ipv6Layer) = Inr (IPv6.SrcIP ipv6Layer, IPv6.DstIP ipv6Layer, 0)"
| "listenNetwork (NetOther n c) = Inl (NetworkNotSupport (LayerTypeOther n))"

text \<open>The source and destination port read from a transport layer; 0 when unknown.\<close>

fun layerPorts :: "TransportLayer \<Rightarrow> uint16 \<times> uint16" where
  "layerPorts (TransTCP tcpLayer) = (TCP.SrcPort tcpLayer, TCP.DstPort tcpLayer)"
| "layerPorts (TransUDP udpLayer) = (UDP.SrcPort udpLayer, UDP.DstPort udpLayer)"
| "layerPorts (TransOther n c) = (0, 0)"

text \<open>
  The new link layer, as both pipelines build it: loopback when the upstream device
  is a loopback device, and otherwise Ethernet from the upstream device to the
  gateway, for an IPv4 network layer only.
\<close>

definition newLink :: "Pcap \<Rightarrow> LayerType \<Rightarrow> error + SerializableLayer" where
  "newLink p networkLayerType =
     (if IsLoop (UpDev p) then Inr (SLoopback \<lparr>Family = 0\<rparr>)
      else case networkLayerType of
        LayerTypeIPv4 \<Rightarrow>
          Inr (SEthernet \<lparr>SrcMAC = HardwareAddr (UpDev p), DstMAC = HardwareAddr (GatewayDev p),
                 EthernetType = EthernetTypeIPv4, Ethernet.Length = 0\<rparr>)
      | t \<Rightarrow> Inl (NetworkNotSupport t))"

text \<open>
  The contents of the new application layer: the contents of the captured network
  layer, transport layer and, when there is one, application layer.
\<close>

definition tunnelContents :: "NetworkLayer \<Rightarrow> TransportLayer \<Rightarrow> bytes option \<Rightarrow> bytes" where
  "tunnelContents networkLayer transportLayer applicationLayer =
     NetworkLayer_LayerContents networkLayer @ TransportLayer_LayerContents transportLayer
     @ (case applicationLayer of None \<Rightarrow> [] | Some a \<Rightarrow> a)"

text \<open>
  \<^verbatim>\<open>handleListen\<close>, for one packet captured on the listen handle \<open>handle\<close>. The state is
  threaded through: \<open>p1\<close> after the seq counter advanced, \<open>p2\<close> after the id counter
  advanced, \<open>p3\<close> after the NAT table was written. The new layers are built by struct
  literals, so their \<^verbatim>\<open>LayerContents()\<close> is empty.
\<close>

definition handleListen ::
  "(bytes \<Rightarrow> uint16) \<Rightarrow> (TCP \<Rightarrow> bytes \<Rightarrow> IPv4 \<Rightarrow> uint16) \<Rightarrow> Pcap \<Rightarrow> Packet \<Rightarrow> Handle
     \<Rightarrow> outcome \<times> Pcap" where
  "handleListen checkSum CheckTCPIPv4Sum p packet handle =
     (case Packet.NetworkLayer packet of
        None \<Rightarrow> (Dropped MissingNetworkLayer, p)
      | Some networkLayer \<Rightarrow>
     (case listenNetwork networkLayer of
        Inl e \<Rightarrow> (Dropped e, p)
      | Inr (srcIP, dstIP, ttl) \<Rightarrow>
     (case Packet.TransportLayer packet of
        None \<Rightarrow> (Dropped MissingTransportLayer, p)
      | Some transportLayer \<Rightarrow>
        let (srcPort, dstPort) = layerPorts transportLayer;
            contents = tunnelContents networkLayer transportLayer
              (Packet.ApplicationLayer packet);
            newTransportLayer = createTCP (UpPort p) (ServerPort p) (seq p);
            p1 = p\<lparr>seq := seq p + 1\<rparr>
        in
     (case gatewayDevIP p1 of
        None \<Rightarrow> (Panicked, p1)
      | Some gatewayIP \<Rightarrow>
        if To4 gatewayIP \<noteq> None then
          (case Device_IPv4 (UpDev p1) of
             None \<Rightarrow> (Dropped IPVersionTransitionNotSupport, p1)
           | Some upDevIP \<Rightarrow>
             let ipv4 = createIPv4 upDevIP (ServerIP p1) (id' p1) (ttl - 1);
                 p2 = p1\<lparr>id' := id' p1 + 1\<rparr>;
                 newTransportLayer = newTransportLayer
                   \<lparr>TCP.Checksum := CheckTCPIPv4Sum newTransportLayer contents ipv4\<rparr>;
                 ipv4 = ipv4\<lparr>IPv4.Length :=
                   (ucast (IHL ipv4) + of_nat (length (TCP.Contents newTransportLayer))
                      + of_nat (length contents)) * 8\<rparr>;
                 ipv4 = ipv4\<lparr>IPv4.Checksum := checkSum (IPv4.Contents ipv4)\<rparr>
             in
             (case newLink p2 (NetworkLayer_LayerType (NetIPv4 ipv4)) of
                Inl e \<Rightarrow> (Dropped e, p2)
              | Inr newLinkLayer \<Rightarrow>
                let q = \<lparr>SrcIP = IP_String srcIP, SrcPort = srcPort,
                         DstIP = IP_String dstIP, DstPort = dstPort,
                         Protocol = TransportLayer_LayerType transportLayer\<rparr>;
                    p3 = p2\<lparr>nat' := (nat' p2)(q \<mapsto> handle)\<rparr>
                in
                (case SerializeLayers
                        [newLinkLayer, SIPv4 ipv4, STCP newTransportLayer, SPayload contents] of
                   Inl e \<Rightarrow> (Dropped e, p3)
                 | Inr data \<Rightarrow> (Written (upHandle p3) data, p3))))
        else
          (case Device_IPv6 (UpDev p1) of
             None \<Rightarrow> (Dropped IPVersionTransitionNotSupport, p1)
           | Some upDevIP \<Rightarrow> (Dropped IPv6NotSupport, p1))))))"

section \<open>The inbound pipeline\<close>

text \<open>
  \<^verbatim>\<open>handle\<close> decodes the payload of the carrier with \<^verbatim>\<open>gopacket.NewPacket\<close> (default
  options), first as IPv4 and, when the version it reads is 6, again as IPv6. The
  decoder is the library's: it is the parameter \<open>NewPacket\<close>, from the bytes and the
  first layer type to the decoded packet.

  The first block of \<^verbatim>\<open>handle\<close>: the type of the encapsulated network layer with its
  destination and source address. The packet decoded as IPv6 is a new variable of
  the \<^verbatim>\<open>case 6\<close> block in the source, so only the network layer is taken from it.
\<close>

definition encappedNetwork ::
  "(bytes \<Rightarrow> LayerType \<Rightarrow> Packet) \<Rightarrow> bytes \<Rightarrow> error + (LayerType \<times> IP \<times> IP)" where
  "encappedNetwork NewPacket contents =
     (case Packet.NetworkLayer (NewPacket contents LayerTypeIPv4) of
        None \<Rightarrow> Inl MissingNetworkLayer
      | Some (NetIPv4 encappedIPv4Layer) \<Rightarrow>
          let ipVersion = IPv4.Version encappedIPv4Layer in
          if ipVersion = 4 then
            Inr (LayerTypeIPv4, IPv4.DstIP encappedIPv4Layer, IPv4.SrcIP encappedIPv4Layer)
          else if ipVersion = 6 then
            (case Packet.NetworkLayer (NewPacket contents LayerTypeIPv6) of
               None \<Rightarrow> Inl MissingNetworkLayer
             | Some (NetIPv6 encappedIPv6Layer) \<Rightarrow>
                 Inr (LayerTypeIPv6, IPv6.DstIP encappedIPv6Layer, IPv6.SrcIP encappedIPv6Layer)
             | Some other \<Rightarrow> Inl TypeNotSupport)
          else Inl (IPVersionNotSupport ipVersion)
      | Some other \<Rightarrow> Inl TypeNotSupport)"

text \<open>The reverse five-tuple that \<^verbatim>\<open>handle\<close> looks up in the NAT table.\<close>

definition reverseQuintuple :: "IP \<Rightarrow> IP \<Rightarrow> TransportLayer \<Rightarrow> Quintuple" where
  "reverseQuintuple encappedDstIP encappedSrcIP encappedTransportLayer =
     (let (encappedSrcPort, encappedDstPort) = layerPorts encappedTransportLayer in
      \<lparr>SrcIP = IP_String encappedDstIP, SrcPort = encappedDstPort,
       DstIP = IP_String encappedSrcIP, DstPort = encappedSrcPort,
       Protocol = TransportLayer_LayerType encappedTransportLayer\<rparr>)"

definition handle :: "(bytes \<Rightarrow> LayerType \<Rightarrow> Packet) \<Rightarrow> Pcap \<Rightarrow> Packet \<Rightarrow> outcome \<times> Pcap" where
  "handle NewPacket p packet =
     (case Packet.ApplicationLayer packet of
        None \<Rightarrow> (Dropped EmptyPayload, p)
      | Some applicationLayer \<Rightarrow>
     (case encappedNetwork NewPacket applicationLayer of
        Inl e \<Rightarrow> (Dropped e, p)
      | Inr (encappedNetworkLayerType, encappedDstIP, encappedSrcIP) \<Rightarrow>
     (case Packet.TransportLayer (NewPacket applicationLayer LayerTypeIPv4) of
        None \<Rightarrow> (Dropped MissingTransportLayer, p)
      | Some encappedTransportLayer \<Rightarrow>
     (case newLink p encappedNetworkLayerType of
        Inl e \<Rightarrow> (Dropped e, p)
      | Inr newLinkLayer \<Rightarrow>
     (case SerializeLayers [newLinkLayer, SPayload applicationLayer] of
        Inl e \<Rightarrow> (Dropped e, p)
      | Inr data \<Rightarrow>
        let q = reverseQuintuple encappedDstIP encappedSrcIP encappedTransportLayer;
            handle' = (case nat' p q of None \<Rightarrow> upHandle p | Some h \<Rightarrow> h)
        in (Written handle' data, p))))))"

section \<open>Concrete frames\<close>

text \<open>
  A decoder to run the pipelines on concrete frames, after gopacket's decoders of
  IPv4, IPv6, TCP and UDP with the default options. Each decoder adds its layer to
  the packet before it reports an error, so a layer that could not be decoded is
  still there, with the fields that were read before the error.

  The theorems about the inbound pipeline hold for every decoder; this one is the
  decoder of the examples. It leaves out the options of an IPv4 header (a header
  with an IHL above 5 is treated like one with an IHL below 5), takes the options of
  a TCP header as well formed, and decodes no extension header of IPv6 and no
  protocol other than TCP and UDP: a packet of another protocol has its network
  layer alone, and the application layer of a TCP or UDP packet is its payload, also
  for a port that gopacket decodes further, such as 53.
\<close>

definition word16 :: "byte \<Rightarrow> byte \<Rightarrow> uint16" where
  "word16 a b = push_bit 8 (ucast a) OR ucast b"

definition word32 :: "byte \<Rightarrow> byte \<Rightarrow> byte \<Rightarrow> byte \<Rightarrow> uint32" where
  "word32 a b c d = push_bit 24 (ucast a) OR push_bit 16 (ucast b) OR push_bit 8 (ucast c) OR ucast d"

definition decodeIPv4Header :: "bytes \<Rightarrow> IPv4" where
  "decodeIPv4Header d =
     \<lparr>IPv4.Contents = take 20 d, IPv4.Version = drop_bit 4 (d ! 0), IHL = (d ! 0) AND 0x0F,
      TOS = d ! 1, IPv4.Length = word16 (d ! 2) (d ! 3), Id' = word16 (d ! 4) (d ! 5),
      Flags = ucast (drop_bit 13 (word16 (d ! 6) (d ! 7))),
      FragOffset = word16 (d ! 6) (d ! 7) AND 0x1FFF, TTL = d ! 8, IPv4.Protocol = d ! 9,
      IPv4.Checksum = word16 (d ! 10) (d ! 11), IPv4.SrcIP = take 4 (drop 12 d),
      IPv4.DstIP = take 4 (drop 16 d)\<rparr>"

definition IPv6_zero :: IPv6 where
  "IPv6_zero = \<lparr>IPv6.Contents = [], IPv6.Version = 0, TrafficClass = 0, FlowLabel = 0,
     IPv6.Length = 0, NextHeader = 0, HopLimit = 0, IPv6.SrcIP = [], IPv6.DstIP = []\<rparr>"

definition decodeIPv6Header :: "bytes \<Rightarrow> IPv6" where
  "decodeIPv6Header d =
     \<lparr>IPv6.Contents = take 40 d, IPv6.Version = drop_bit 4 (d ! 0),
      TrafficClass = ucast (drop_bit 4 (word16 (d ! 0) (d ! 1))),
      FlowLabel = word32 (d ! 0) (d ! 1) (d ! 2) (d ! 3) AND 0x000FFFFF,
      IPv6.Length = word16 (d ! 4) (d ! 5), NextHeader = d ! 6, HopLimit = d ! 7,
      IPv6.SrcIP = take 16 (drop 8 d), IPv6.DstIP = take 16 (drop 24 d)\<rparr>"

definition decodeTCPHeader :: "bytes \<Rightarrow> TCP" where
  "decodeTCPHeader d =
     \<lparr>TCP.Contents = take 20 d, TCP.SrcPort = word16 (d ! 0) (d ! 1),
      TCP.DstPort = word16 (d ! 2) (d ! 3), Seq' = word32 (d ! 4) (d ! 5) (d ! 6) (d ! 7),
      Ack = word32 (d ! 8) (d ! 9) (d ! 10) (d ! 11), DataOffset = drop_bit 4 (d ! 12),
      FIN = bit (d ! 13) 0, SYN = bit (d ! 13) 1, RST = bit (d ! 13) 2, PSH = bit (d ! 13) 3,
      ACK = bit (d ! 13) 4, URG = bit (d ! 13) 5, ECE = bit (d ! 13) 6, CWR = bit (d ! 13) 7,
      NS = bit (d ! 12) 0, Window = word16 (d ! 14) (d ! 15),
      TCP.Checksum = word16 (d ! 16) (d ! 17), Urgent = word16 (d ! 18) (d ! 19),
      TCP.pseudoheader = None\<rparr>"

definition decodeUDPHeader :: "bytes \<Rightarrow> UDP" where
  "decodeUDPHeader d =
     \<lparr>UDP.Contents = take 8 d, UDP.SrcPort = word16 (d ! 0) (d ! 1),
      UDP.DstPort = word16 (d ! 2) (d ! 3), UDP.Length = word16 (d ! 4) (d ! 5),
      UDP.Checksum = word16 (d ! 6) (d ! 7), UDP.pseudoheader = None\<rparr>"

definition payloadLayer :: "bytes \<Rightarrow> bytes option" where
  "payloadLayer d = (if d = [] then None else Some d)"

text \<open>
  The transport and application layer decoded from the payload of a network layer,
  by its protocol number. Nothing is decoded from an empty payload. A TCP or UDP
  layer is added even when its header is too short (the layer is then the zero
  struct) or its data offset or length is wrong.
\<close>

definition decodeTransport :: "uint8 \<Rightarrow> bytes \<Rightarrow> TransportLayer option \<times> bytes option" where
  "decodeTransport protocol rest =
     (if rest = [] then (None, None)
      else if protocol = IPProtocolTCP then
        if length rest < 20 then (Some (TransTCP TCP_zero), None)
        else
          let tcp = decodeTCPHeader rest; dataStart = 4 * unat (DataOffset tcp) in
          if DataOffset tcp < 5 then (Some (TransTCP (tcp\<lparr>TCP.Contents := []\<rparr>)), None)
          else if length rest < dataStart then (Some (TransTCP (tcp\<lparr>TCP.Contents := rest\<rparr>)), None)
          else (Some (TransTCP (tcp\<lparr>TCP.Contents := take dataStart rest\<rparr>)),
                payloadLayer (drop dataStart rest))
      else if protocol = IPProtocolUDP then
        if length rest < 8 then (Some (TransUDP UDP_zero), None)
        else
          let udp = decodeUDPHeader rest in
          (Some (TransUDP udp),
           if UDP.Length udp = 0 then payloadLayer (drop 8 rest)
           else if UDP.Length udp < 8 then None
           else payloadLayer (take (unat (UDP.Length udp) - 8) (drop 8 rest)))
      else (None, None))"

text \<open>
  The packet decoded from the bytes, with IPv4 or IPv6 as the first layer. An IPv4
  header needs 20 bytes; a length field of 0 stands for the length of the bytes, and
  bytes beyond the length field are cut off. A fragment has no transport layer: what
  follows the header is its application layer. An IPv6 header needs 40 bytes and a
  length field that is not 0.
\<close>

definition NewPacket_plain :: "bytes \<Rightarrow> LayerType \<Rightarrow> Packet" where
  "NewPacket_plain d firstLayer =
     (case firstLayer of
        LayerTypeIPv4 \<Rightarrow>
          if length d < 20 then
            \<lparr>NetworkLayer = Some (NetIPv4 IPv4_zero), TransportLayer = None,
             ApplicationLayer = None\<rparr>
          else
            let ip = decodeIPv4Header d;
                ip = (if IPv4.Length ip = 0 then ip\<lparr>IPv4.Length := of_nat (length d)\<rparr> else ip);
                rest = drop 20 (take (unat (IPv4.Length ip)) d)
            in
            if IPv4.Length ip < 20 \<or> IHL ip \<noteq> 5 then
              \<lparr>NetworkLayer = Some (NetIPv4 (ip\<lparr>IPv4.Contents := d\<rparr>)), TransportLayer = None,
               ApplicationLayer = None\<rparr>
            else if Flags ip AND IPv4MoreFragments = 0 \<and> FragOffset ip = 0 then
              \<lparr>NetworkLayer = Some (NetIPv4 ip),
               TransportLayer = fst (decodeTransport (IPv4.Protocol ip) rest),
               ApplicationLayer = snd (decodeTransport (IPv4.Protocol ip) rest)\<rparr>
            else
              \<lparr>NetworkLayer = Some (NetIPv4 ip), TransportLayer = None,
               ApplicationLayer = payloadLayer rest\<rparr>
      | LayerTypeIPv6 \<Rightarrow>
          if length d < 40 then
            \<lparr>NetworkLayer = Some (NetIPv6 IPv6_zero), TransportLayer = None,
             ApplicationLayer = None\<rparr>
          else
            let ip = decodeIPv6Header d;
                rest = take (unat (IPv6.Length ip)) (drop 40 d)
            in
            if IPv6.Length ip = 0 then
              \<lparr>NetworkLayer = Some (NetIPv6 ip), TransportLayer = None,
               ApplicationLayer = None\<rparr>
            else
              \<lparr>NetworkLayer = Some (NetIPv6 ip),
               TransportLayer = fst (decodeTransport (NextHeader ip) rest),
               ApplicationLayer = snd (decodeTransport (NextHeader ip) rest)\<rparr>
      | other \<Rightarrow> \<lparr>NetworkLayer = None, TransportLayer = None, ApplicationLayer = None\<rparr>)"

text \<open>
  A proxy: the upstream device 192.168.1.10 on an Ethernet, the gateway 192.168.1.1,
  the server 203.0.113.5:443, the carrier's source port 10000, one listen handle (2)
  and the upstream handle (0); the counters at 0 and the NAT table empty.
\<close>

definition exampleUpDev :: Device where
  "exampleUpDev = \<lparr>Name = ''eth0'', FriendlyName = ''eth0'',
     IPAddrs = [\<lparr>IP = [192, 168, 1, 10], Mask = [255, 255, 255, 0]\<rparr>],
     HardwareAddr = [2, 0, 0, 0, 0, 1], IsLoop = False\<rparr>"

definition exampleGatewayDev :: Device where
  "exampleGatewayDev = \<lparr>Name = ''gateway'', FriendlyName = ''gateway'',
     IPAddrs = [\<lparr>IP = [192, 168, 1, 1], Mask = [255, 255, 255, 0]\<rparr>],
     HardwareAddr = [2, 0, 0, 0, 0, 254], IsLoop = False\<rparr>"

definition examplePcap :: Pcap where
  "examplePcap = \<lparr>ListenPort = 443, UpPort = 10000, ServerIP = [203, 0, 113, 5],
     ServerPort = 443, ListenDevs = [exampleUpDev], UpDev = exampleUpDev,
     GatewayDev = exampleGatewayDev, listenHandles = [2], upHandle = 0, seq = 0, id' = 0,
     nat' = Map.empty\<rparr>"

text \<open>
  The packet of the spec's first scenario, from its network header on: IPv4 and TCP
  from 10.0.0.2:50000 to 8.8.8.8:443, a SYN without payload (40 bytes); and the answer
  from 8.8.8.8:443 to 10.0.0.2:50000, a SYN and ACK.
\<close>

definition exampleRequest :: bytes where
  "exampleRequest =
     [0x45, 0x00, 0x00, 0x28, 0x00, 0x01, 0x40, 0x00, 0x40, 0x06, 0x20, 0xbe,
      10, 0, 0, 2, 8, 8, 8, 8,
      0xc3, 0x50, 0x01, 0xbb, 0x00, 0x00, 0x00, 0x01, 0x00, 0x00, 0x00, 0x00,
      0x50, 0x02, 0xff, 0xff, 0xd0, 0xc4, 0x00, 0x00]"

definition exampleReply :: bytes where
  "exampleReply =
     [0x45, 0x00, 0x00, 0x28, 0x00, 0x02, 0x40, 0x00, 0x40, 0x06, 0x20, 0xbd,
      8, 8, 8, 8, 10, 0, 0, 2,
      0x01, 0xbb, 0xc3, 0x50, 0x00, 0x00, 0x00, 0x07, 0x00, 0x00, 0x00, 0x02,
      0x50, 0x12, 0xff, 0xff, 0xd0, 0xac, 0x00, 0x00]"

definition exampleQuintuple :: Quintuple where
  "exampleQuintuple = \<lparr>SrcIP = ''10.0.0.2'', SrcPort = 50000, DstIP = ''8.8.8.8'',
     DstPort = 443, Protocol = LayerTypeTCP\<rparr>"

text \<open>A carrier segment from the server as gopacket decodes it, with its payload.\<close>

definition carrierWith :: "bytes option \<Rightarrow> Packet" where
  "carrierWith payload =
     \<lparr>NetworkLayer = Some (NetIPv4 (createIPv4 [203, 0, 113, 5] [192, 168, 1, 10] 0 64)),
      TransportLayer = Some (TransTCP (createTCP 443 10000 0)),
      ApplicationLayer = payload\<rparr>"

text \<open>What a pipeline wrote, if it wrote.\<close>

fun isWritten :: "outcome \<Rightarrow> bool" where
  "isWritten (Written h data) = True"
| "isWritten other = False"

fun frame :: "outcome \<Rightarrow> bytes" where
  "frame (Written h data) = data"
| "frame other = []"

text \<open>
  The bytes before and after the payload in a frame of the inbound pipeline: the
  loopback header (family 0), or the Ethernet header from the upstream device to the
  gateway with the padding of a frame shorter than 60 bytes.
\<close>

definition linkHeader :: "Pcap \<Rightarrow> bytes" where
  "linkHeader p =
     (if IsLoop (UpDev p) then [0, 0, 0, 0]
      else HardwareAddr (GatewayDev p) @ HardwareAddr (UpDev p) @ [0x08, 0x00])"

definition linkPadding :: "Pcap \<Rightarrow> nat \<Rightarrow> bytes" where
  "linkPadding p n = (if IsLoop (UpDev p) then [] else replicate (60 - (14 + n)) 0)"

text \<open>
  The five-tuple of a packet captured on a listen handle: the addresses of its IPv4
  or IPv6 layer as strings, the ports of its transport layer (0 for a layer that is
  neither TCP nor UDP) and the type of its transport layer.
\<close>

definition observedQuintuple :: "Packet \<Rightarrow> Quintuple option" where
  "observedQuintuple packet =
     (case Packet.NetworkLayer packet of
        None \<Rightarrow> None
      | Some networkLayer \<Rightarrow>
          (case listenNetwork networkLayer of
             Inl e \<Rightarrow> None
           | Inr (srcIP, dstIP, ttl) \<Rightarrow>
               (case Packet.TransportLayer packet of
                  None \<Rightarrow> None
                | Some transportLayer \<Rightarrow>
                    Some \<lparr>SrcIP = IP_String srcIP, SrcPort = fst (layerPorts transportLayer),
                          DstIP = IP_String dstIP, DstPort = snd (layerPorts transportLayer),
                          Protocol = TransportLayer_LayerType transportLayer\<rparr>)))"


text \<open>A gateway whose first address is an IPv6 address.\<close>

definition exampleGatewayDev6 :: Device where
  "exampleGatewayDev6 = \<lparr>Name = ''gateway'', FriendlyName = ''gateway'',
     IPAddrs = [\<lparr>IP = [0xfe, 0x80, 0, 0, 0, 0, 0, 0, 0, 0, 0, 0, 0, 0, 0, 1],
                 Mask = [255, 255, 255, 255, 255, 255, 255, 255, 0, 0, 0, 0, 0, 0, 0, 0]\<rparr>],
     HardwareAddr = [2, 0, 0, 0, 0, 254], IsLoop = False\<rparr>"

text \<open>
  The same proxy on a loopback device, where the new link layer is a loopback header
  for IPv4 and IPv6 alike.
\<close>

definition exampleLoopDev :: Device where
  "exampleLoopDev = \<lparr>Name = ''lo'', FriendlyName = ''lo'',
     IPAddrs = [\<lparr>IP = [127, 0, 0, 1], Mask = [255, 0, 0, 0]\<rparr>],
     HardwareAddr = [], IsLoop = True\<rparr>"

definition exampleLoopPcap :: Pcap where
  "exampleLoopPcap = \<lparr>ListenPort = 443, UpPort = 10000, ServerIP = [127, 0, 0, 1],
     ServerPort = 443, ListenDevs = [exampleLoopDev], UpDev = exampleLoopDev,
     GatewayDev = exampleLoopDev, listenHandles = [2], upHandle = 0, seq = 0, id' = 0,
     nat' = Map.empty\<rparr>"

text \<open>
  An answer over IPv6: IPv6 and TCP from 2001:db8::1, port 443, to 2001:db8::2, port
  50000, a SYN and ACK without payload (60 bytes); and the five-tuple of the request
  it answers, which is its reverse five-tuple.
\<close>

definition exampleReply6 :: bytes where
  "exampleReply6 =
     [0x60, 0x00, 0x00, 0x00, 0x00, 0x14, 0x06, 0x40,
      0x20, 0x01, 0x0d, 0xb8, 0, 0, 0, 0, 0, 0, 0, 0, 0, 0, 0, 1,
      0x20, 0x01, 0x0d, 0xb8, 0, 0, 0, 0, 0, 0, 0, 0, 0, 0, 0, 2,
      0x01, 0xbb, 0xc3, 0x50, 0x00, 0x00, 0x00, 0x07, 0x00, 0x00, 0x00, 0x02,
      0x50, 0x12, 0xff, 0xff, 0x8f, 0x49, 0x00, 0x00]"

definition exampleQuintuple6 :: Quintuple where
  "exampleQuintuple6 = \<lparr>SrcIP = ''2001:db8::2'', SrcPort = 50000, DstIP = ''2001:db8::1'',
     DstPort = 443, Protocol = LayerTypeTCP\<rparr>"

text \<open>
  An IPv6 packet that also decodes as an IPv4 packet with a transport layer. Its
  traffic class begins with 5 (read as an IHL of 5), its flow label ends in 0x0030
  (read as the length 48), its next header is 64 with the hop limit 0 (read as the
  flag DF and the fragment offset 0), and its source address 2011:db8::c350:c351
  begins with 0x20 0x11 (read as the TTL 32 and the protocol 17, UDP) and ends with
  the bytes read as the UDP ports 50000 and 50001. As an IPv6 packet to 2001:db8::1
  it has no transport layer: gopacket has no decoder for the next header 64. Below
  it is the five-tuple that mixes the addresses of the one reading with the ports of
  the other.
\<close>

definition exampleDual :: bytes where
  "exampleDual =
     [0x65, 0x00, 0x00, 0x30, 0x00, 0x08, 0x40, 0x00,
      0x20, 0x11, 0x0d, 0xb8, 0, 0, 0, 0, 0, 0, 0, 0, 0xc3, 0x50, 0xc3, 0x51,
      0x20, 0x01, 0x0d, 0xb8, 0, 0, 0, 0, 0, 0, 0, 0, 0, 0, 0, 1,
      0, 0, 0, 0, 0, 0, 0, 0]"

definition exampleDualKey :: Quintuple where
  "exampleDualKey = \<lparr>SrcIP = ''2001:db8::1'', SrcPort = 50001,
     DstIP = ''2011:db8::c350:c351'', DstPort = 50000, Protocol = LayerTypeUDP\<rparr>"

text \<open>
  The packet of the first scenario with a transport layer that is neither TCP nor
  UDP, of the type numbered \<open>n\<close>: gopacket has such layers (SCTP, UDPLite, RUDP).
\<close>

definition exampleOther :: "nat \<Rightarrow> Packet" where
  "exampleOther n =
     \<lparr>NetworkLayer = Some (NetIPv4 (decodeIPv4Header exampleRequest)),
      TransportLayer = Some (TransOther n (drop 20 exampleRequest)),
      ApplicationLayer = None\<rparr>"

text \<open>The key under which the table holds that packet.\<close>

definition exampleOtherKey :: "nat \<Rightarrow> Quintuple" where
  "exampleOtherKey n = \<lparr>SrcIP = ''10.0.0.2'', SrcPort = 0, DstIP = ''8.8.8.8'', DstPort = 0,
     Protocol = LayerTypeOther n\<rparr>"

text \<open>
  The transport protocol tag as the spec words it, to compare with the layer type the
  code stores: TCP, UDP, and the one tag \<open>Other\<close> for every packet whose ports are
  unknown; and a key of the NAT table read as the spec's five-tuple.
\<close>

datatype Kind = KindTCP | KindUDP | KindOther

fun specKind :: "LayerType \<Rightarrow> Kind" where
  "specKind LayerTypeTCP = KindTCP"
| "specKind LayerTypeUDP = KindUDP"
| "specKind other = KindOther"

definition specFiveTuple :: "Quintuple \<Rightarrow> string \<times> uint16 \<times> string \<times> uint16 \<times> Kind" where
  "specFiveTuple q = (SrcIP q, SrcPort q, DstIP q, DstPort q, specKind (Protocol q))"

section \<open>Properties of the pipelines\<close>

subsection \<open>What a written frame tells\<close>

lemma gatewayDevIP_seq [simp]: "gatewayDevIP (p\<lparr>seq := s\<rparr>) = gatewayDevIP p"
  by (simp add: gatewayDevIP_def)

lemma newLink_counters [simp]:
  "newLink (p\<lparr>seq := s\<rparr>) t = newLink p t" "newLink (p\<lparr>id' := i\<rparr>) t = newLink p t"
  by (cases t; simp add: newLink_def)+

lemma created_fields [simp]:
  "IHL (createIPv4 a b c d) = 5" "IPv4.Contents (createIPv4 a b c d) = []"
  "TCP.Contents (createTCP e f g) = []"
  by (simp_all add: createIPv4_def createTCP_def IPv4_zero_def TCP_zero_def)

text \<open>
  When the outbound pipeline writes a frame, every check before the write passed, the
  frame is the serialization of the four layers, it goes to the upstream handle, and
  the state has both counters advanced and the five-tuple bound to the listen handle.
\<close>

lemma handleListen_Written:
  assumes "isWritten (fst (handleListen cs tcs p packet h))"
  shows "\<exists>nl tl srcIP dstIP ttl gw upDevIP link data.
     Packet.NetworkLayer packet = Some nl \<and> listenNetwork nl = Inr (srcIP, dstIP, ttl)
     \<and> Packet.TransportLayer packet = Some tl \<and> gatewayDevIP p = Some gw \<and> To4 gw \<noteq> None
     \<and> Device_IPv4 (UpDev p) = Some upDevIP \<and> newLink p LayerTypeIPv4 = Inr link
     \<and> SerializeLayers
          [link,
           SIPv4 ((createIPv4 upDevIP (ServerIP p) (id' p) (ttl - 1))
             \<lparr>IPv4.Length :=
                (5 + 0 + of_nat (length (tunnelContents nl tl (Packet.ApplicationLayer packet)))) * 8,
              IPv4.Checksum := cs []\<rparr>),
           STCP ((createTCP (UpPort p) (ServerPort p) (seq p))
             \<lparr>TCP.Checksum := tcs (createTCP (UpPort p) (ServerPort p) (seq p))
                (tunnelContents nl tl (Packet.ApplicationLayer packet))
                (createIPv4 upDevIP (ServerIP p) (id' p) (ttl - 1))\<rparr>),
           SPayload (tunnelContents nl tl (Packet.ApplicationLayer packet))] = Inr data
     \<and> handleListen cs tcs p packet h =
         (Written (upHandle p) data,
          p\<lparr>seq := seq p + 1, id' := id' p + 1,
            nat' := (nat' p)(\<lparr>SrcIP = IP_String srcIP, SrcPort = fst (layerPorts tl),
               DstIP = IP_String dstIP, DstPort = snd (layerPorts tl),
               Protocol = TransportLayer_LayerType tl\<rparr> \<mapsto> h)\<rparr>)"
  using assms
  by (auto simp: handleListen_def Let_def split: option.splits sum.splits prod.splits if_splits)

text \<open>The same for the inbound pipeline, which never changes the state.\<close>

lemma handle_Written:
  assumes "isWritten (fst (handle NewPacket p packet))"
  shows "\<exists>payload t dstIP srcIP tl link data.
     Packet.ApplicationLayer packet = Some payload
     \<and> encappedNetwork NewPacket payload = Inr (t, dstIP, srcIP)
     \<and> Packet.TransportLayer (NewPacket payload LayerTypeIPv4) = Some tl
     \<and> newLink p t = Inr link
     \<and> SerializeLayers [link, SPayload payload] = Inr data
     \<and> handle NewPacket p packet =
         (Written (case nat' p (reverseQuintuple dstIP srcIP tl) of
                     None \<Rightarrow> upHandle p | Some h \<Rightarrow> h) data, p)"
  using assms
  by (auto simp: handle_def Let_def split: option.splits sum.splits prod.splits)

lemma handle_state: "snd (handle NewPacket p packet) = p"
  by (auto simp: handle_def Let_def split: option.splits sum.splits prod.splits)

text \<open>
  The inbound pipeline reads the packet decoded as IPv6 for its network layer only:
  two decoders that agree on what they decode as IPv4 and on the network layer of
  what they decode as IPv6 give the same outcome, whatever transport layer the
  packet has as an IPv6 packet.
\<close>

lemma handle_ipv6_transport_unread:
  assumes "\<And>c. NewPacket' c LayerTypeIPv4 = NewPacket c LayerTypeIPv4"
    and "\<And>c. Packet.NetworkLayer (NewPacket' c LayerTypeIPv6)
           = Packet.NetworkLayer (NewPacket c LayerTypeIPv6)"
  shows "handle NewPacket' p packet = handle NewPacket p packet"
proof -
  have "encappedNetwork NewPacket' c = encappedNetwork NewPacket c" for c
    by (simp add: encappedNetwork_def assms Let_def split: option.splits NetworkLayer.splits)
  then show ?thesis
    by (simp add: handle_def assms split: option.splits sum.splits prod.splits)
qed

text \<open>
  The outbound pipeline leaves the devices as they are, and with an IPv4 gateway and
  an IPv4 address of the upstream device it binds the five-tuple of the packet to the
  listen handle and leaves every other entry of the table as it was.
\<close>

lemma handleListen_devices:
  "UpDev (snd (handleListen cs tcs p packet h)) = UpDev p"
  "GatewayDev (snd (handleListen cs tcs p packet h)) = GatewayDev p"
  by (auto simp: handleListen_def Let_def split: option.splits sum.splits prod.splits)

lemma handleListen_table:
  assumes "observedQuintuple packet = Some q" and "gatewayDevIP p = Some gatewayIP"
    and "To4 gatewayIP \<noteq> None" and "Device_IPv4 (UpDev p) = Some upDevIP"
  shows "nat' (snd (handleListen cs tcs p packet h)) = (nat' p)(q \<mapsto> h)"
  using assms
  by (auto simp: observedQuintuple_def handleListen_def Let_def newLink_def
      split: option.splits sum.splits prod.splits)


lemma SerializeLayers_Loopback:
  "SerializeLayers [SLoopback \<lparr>Family = 0\<rparr>, SPayload c] = Inr ([0, 0, 0, 0] @ c)"
  by (simp add: SerializeLayers_def le32_def)

lemma SerializeLayers_Ethernet:
  "SerializeLayers [SEthernet \<lparr>SrcMAC = s, DstMAC = d, EthernetType = EthernetTypeIPv4,
       Ethernet.Length = 0\<rparr>, SPayload c] =
     (if length d = 6 \<and> length s = 6
      then Inr (d @ s @ [0x08, 0x00] @ c @ replicate (60 - (14 + length c)) 0)
      else Inl SerializeFailed)"
  by (simp add: SerializeLayers_def be16_def EthernetTypeIPv4_def EthernetTypeLLC_def Let_def)

lemma newLink_cases:
  assumes "newLink p t = Inr link"
  shows "(IsLoop (UpDev p) \<and> link = SLoopback \<lparr>Family = 0\<rparr>)
       \<or> (\<not> IsLoop (UpDev p) \<and> t = LayerTypeIPv4
           \<and> link = SEthernet \<lparr>SrcMAC = HardwareAddr (UpDev p),
                 DstMAC = HardwareAddr (GatewayDev p),
                 EthernetType = EthernetTypeIPv4, Ethernet.Length = 0\<rparr>)"
  using assms by (cases t) (auto simp: newLink_def split: if_splits)

lemma SerializeTo_extends:
  assumes "SerializeTo layer b = Inr data"
  shows "\<exists>pre post. data = pre @ b @ post"
proof (cases layer)
  case (SLoopback l)
  with assms have "data = le32 (ucast (Family l)) @ b @ []" by simp
  then show ?thesis by blast
next
  case (SEthernet eth)
  with assms have
    "data = (DstMAC eth @ SrcMAC eth @ be16 (Ethernet.Length eth)) @ b @ [] \<or>
     data = (DstMAC eth @ SrcMAC eth @ be16 (Ethernet.Length eth)) @ b
              @ replicate (60 - length (DstMAC eth @ SrcMAC eth @ be16 (Ethernet.Length eth) @ b)) 0 \<or>
     data = (DstMAC eth @ SrcMAC eth @ be16 (EthernetType eth)) @ b @ [] \<or>
     data = (DstMAC eth @ SrcMAC eth @ be16 (EthernetType eth)) @ b
              @ replicate (60 - length (DstMAC eth @ SrcMAC eth @ be16 (EthernetType eth) @ b)) 0"
    by (auto simp: Let_def split: if_splits)
  then show ?thesis by blast
next
  case (SIPv4 ip)
  with assms obtain src dst where "data = IPv4_header ip src dst @ b @ []"
    by (auto split: option.splits)
  then show ?thesis by blast
next
  case (STCP t)
  with assms have "data = TCP_header t @ b @ []" by simp
  then show ?thesis by blast
next
  case (SPayload c)
  with assms have "data = c @ b @ []" by simp
  then show ?thesis by blast
qed

lemma SerializeLayers_carrier:
  assumes "SerializeLayers [link, SIPv4 ip, STCP t, SPayload c] = Inr data"
  shows "\<exists>pre src dst post. data = pre @ IPv4_header ip src dst @ TCP_header t @ c @ post"
proof -
  from assms obtain b where inner: "SerializeFrom [SIPv4 ip, STCP t, SPayload c] [] = Inr b"
      and outer: "SerializeTo link b = Inr data"
    by (auto simp: SerializeLayers_def split: sum.splits)
  from inner obtain src dst where "b = IPv4_header ip src dst @ TCP_header t @ c"
    by (auto split: option.splits)
  with SerializeTo_extends [OF outer] show ?thesis by auto
qed

text \<open>
  The IPv4 header of a frame the outbound pipeline writes: its checksum field is the
  checksum function applied to no bytes, whatever the header holds, and its length
  field is eight times the sum of 5 and the length of the tunnel payload.
\<close>

lemma handleListen_ipv4_header:
  assumes "isWritten (fst (handleListen checkSum CheckTCPIPv4Sum p packet h))"
  shows "\<exists>link ipv4 tcp contents.
     SerializeLayers [link, SIPv4 ipv4, STCP tcp, SPayload contents]
       = Inr (frame (fst (handleListen checkSum CheckTCPIPv4Sum p packet h)))
     \<and> IPv4.Checksum ipv4 = checkSum []
     \<and> IPv4.Length ipv4 = (5 + 0 + of_nat (length contents)) * 8"
proof -
  obtain nl tl ttl upDevIP link data where
      ser: "SerializeLayers
          [link,
           SIPv4 ((createIPv4 upDevIP (ServerIP p) (id' p) (ttl - 1))
             \<lparr>IPv4.Length :=
                (5 + 0 + of_nat (length (tunnelContents nl tl (Packet.ApplicationLayer packet)))) * 8,
              IPv4.Checksum := checkSum []\<rparr>),
           STCP ((createTCP (UpPort p) (ServerPort p) (seq p))
             \<lparr>TCP.Checksum := CheckTCPIPv4Sum (createTCP (UpPort p) (ServerPort p) (seq p))
                (tunnelContents nl tl (Packet.ApplicationLayer packet))
                (createIPv4 upDevIP (ServerIP p) (id' p) (ttl - 1))\<rparr>),
           SPayload (tunnelContents nl tl (Packet.ApplicationLayer packet))] = Inr data"
      and run: "fst (handleListen checkSum CheckTCPIPv4Sum p packet h) = Written (upHandle p) data"
    using handleListen_Written [OF assms] by (metis fst_conv)
  show ?thesis
    apply (rule exI [of _ link])
    apply (rule exI [of _ "(createIPv4 upDevIP (ServerIP p) (id' p) (ttl - 1))
             \<lparr>IPv4.Length :=
                (5 + 0 + of_nat (length (tunnelContents nl tl (Packet.ApplicationLayer packet)))) * 8,
              IPv4.Checksum := checkSum []\<rparr>"])
    apply (rule exI [of _ "(createTCP (UpPort p) (ServerPort p) (seq p))
             \<lparr>TCP.Checksum := CheckTCPIPv4Sum (createTCP (UpPort p) (ServerPort p) (seq p))
                (tunnelContents nl tl (Packet.ApplicationLayer packet))
                (createIPv4 upDevIP (ServerIP p) (id' p) (ttl - 1))\<rparr>"])
    apply (rule exI [of _ "tunnelContents nl tl (Packet.ApplicationLayer packet)"])
    using ser run apply simp
    done
qed


subsection \<open>The pipelines on the concrete frames\<close>

lemma exampleRequest_decoded:
  "NewPacket_plain exampleRequest LayerTypeIPv4 =
     \<lparr>NetworkLayer = Some (NetIPv4
        \<lparr>IPv4.Contents = take 20 exampleRequest, IPv4.Version = 4, IHL = 5, TOS = 0,
         IPv4.Length = 40, Id' = 1, Flags = 2, FragOffset = 0, TTL = 64, IPv4.Protocol = 6,
         IPv4.Checksum = 0x20be, IPv4.SrcIP = [10, 0, 0, 2], IPv4.DstIP = [8, 8, 8, 8]\<rparr>),
      TransportLayer = Some (TransTCP
        \<lparr>TCP.Contents = drop 20 exampleRequest, TCP.SrcPort = 50000, TCP.DstPort = 443,
         Seq' = 1, Ack = 0, DataOffset = 5, FIN = False, SYN = True, RST = False, PSH = False,
         ACK = False, URG = False, ECE = False, CWR = False, NS = False, Window = 65535,
         TCP.Checksum = 0xd0c4, Urgent = 0, TCP.pseudoheader = None\<rparr>),
      ApplicationLayer = None\<rparr>"
  by (simp add: NewPacket_plain_def decodeTransport_def decodeIPv4Header_def decodeTCPHeader_def
      payloadLayer_def exampleRequest_def word16_def word32_def IPProtocolTCP_def
      IPv4MoreFragments_def Let_def)

lemma exampleReply_decoded:
  "NewPacket_plain exampleReply LayerTypeIPv4 =
     \<lparr>NetworkLayer = Some (NetIPv4
        \<lparr>IPv4.Contents = take 20 exampleReply, IPv4.Version = 4, IHL = 5, TOS = 0,
         IPv4.Length = 40, Id' = 2, Flags = 2, FragOffset = 0, TTL = 64, IPv4.Protocol = 6,
         IPv4.Checksum = 0x20bd, IPv4.SrcIP = [8, 8, 8, 8], IPv4.DstIP = [10, 0, 0, 2]\<rparr>),
      TransportLayer = Some (TransTCP
        \<lparr>TCP.Contents = drop 20 exampleReply, TCP.SrcPort = 443, TCP.DstPort = 50000,
         Seq' = 7, Ack = 2, DataOffset = 5, FIN = False, SYN = True, RST = False, PSH = False,
         ACK = True, URG = False, ECE = False, CWR = False, NS = False, Window = 65535,
         TCP.Checksum = 0xd0ac, Urgent = 0, TCP.pseudoheader = None\<rparr>),
      ApplicationLayer = None\<rparr>"
  by (simp add: NewPacket_plain_def decodeTransport_def decodeIPv4Header_def decodeTCPHeader_def
      payloadLayer_def exampleReply_def word16_def word32_def IPProtocolTCP_def
      IPv4MoreFragments_def Let_def)

lemma example_strings:
  "IP_String [10, 0, 0, 2] = ''10.0.0.2''" "IP_String [8, 8, 8, 8] = ''8.8.8.8''"
  by (simp_all add: IP_String_def To4_def ubtoa_def hexDigit_def)

lemma exampleRequest_observed:
  "observedQuintuple (NewPacket_plain exampleRequest LayerTypeIPv4) = Some exampleQuintuple"
  by (simp add: observedQuintuple_def exampleRequest_decoded example_strings exampleQuintuple_def)

lemma exampleRun:
  "handleListen cs tcs examplePcap (NewPacket_plain exampleRequest LayerTypeIPv4) 2 =
     (Written 0
        ([2, 0, 0, 0, 0, 254, 2, 0, 0, 0, 0, 1, 0x08, 0x00]
         @ [0x45, 0, 0x01, 0x68, 0, 0, 0x40, 0, 63, 6] @ be16 (cs [])
         @ [192, 168, 1, 10, 203, 0, 113, 5]
         @ [0x27, 0x10, 0x01, 0xbb, 0, 0, 0, 0, 0, 0, 0, 0, 0x50, 0x18, 0, 0]
         @ be16 (tcs (createTCP 10000 443 0) exampleRequest
                   (createIPv4 [192, 168, 1, 10] [203, 0, 113, 5] 0 63))
         @ [0, 0] @ exampleRequest),
      examplePcap\<lparr>seq := 1, id' := 1, nat' := [exampleQuintuple \<mapsto> 2]\<rparr>)"
  unfolding exampleRequest_decoded
  by (simp add: handleListen_def Let_def tunnelContents_def examplePcap_def exampleUpDev_def
      exampleGatewayDev_def gatewayDevIP_def To4_def Device_IPv4_def newLink_def
      SerializeLayers_def IPv4_header_def TCP_header_def flagsAndOffset_def flagsfrags_def
      be16_def be32_def createIPv4_def createTCP_def IPv4_zero_def TCP_zero_def
      IPv4DontFragment_def IPProtocolTCP_def EthernetTypeIPv4_def EthernetTypeLLC_def
      example_strings exampleQuintuple_def exampleRequest_def)

lemma exampleRun6:
  "handleListen cs tcs (examplePcap\<lparr>GatewayDev := exampleGatewayDev6\<rparr>)
       (NewPacket_plain exampleRequest LayerTypeIPv4) 2 =
     (Dropped IPVersionTransitionNotSupport,
      examplePcap\<lparr>GatewayDev := exampleGatewayDev6, seq := 1\<rparr>)"
  unfolding exampleRequest_decoded
  by (simp add: handleListen_def Let_def examplePcap_def exampleUpDev_def
      exampleGatewayDev6_def gatewayDevIP_def To4_def Device_IPv6_def)

lemma exampleInbound:
  "handle NewPacket_plain (examplePcap\<lparr>nat' := m\<rparr>) (carrierWith (Some exampleReply)) =
     (Written (case m exampleQuintuple of None \<Rightarrow> 0 | Some h \<Rightarrow> h)
        ([2, 0, 0, 0, 0, 254, 2, 0, 0, 0, 0, 1, 0x08, 0x00] @ exampleReply @ [0, 0, 0, 0, 0, 0]),
      examplePcap\<lparr>nat' := m\<rparr>)"
proof -
  have len: "length exampleReply = 40"
    by (simp add: exampleReply_def)
  have pad: "replicate 6 (0 :: byte) = [0, 0, 0, 0, 0, 0]"
    by (simp add: eval_nat_numeral)
  show ?thesis
    by (simp add: handle_def encappedNetwork_def exampleReply_decoded carrierWith_def Let_def
        newLink_def examplePcap_def exampleUpDev_def exampleGatewayDev_def
        SerializeLayers_Ethernet reverseQuintuple_def example_strings exampleQuintuple_def
        len pad split: option.splits)
qed

lemma examplePcap_fields:
  "seq examplePcap = 0" "id' examplePcap = 0" "upHandle examplePcap = 0"
  "nat' examplePcap = Map.empty" "UpDev examplePcap = exampleUpDev"
  "GatewayDev examplePcap = exampleGatewayDev"
  by (simp_all add: examplePcap_def)

lemma exampleInbound_miss:
  "handle NewPacket_plain examplePcap (carrierWith (Some exampleReply)) =
     (Written 0
        ([2, 0, 0, 0, 0, 254, 2, 0, 0, 0, 0, 1, 0x08, 0x00] @ exampleReply @ [0, 0, 0, 0, 0, 0]),
      examplePcap)"
proof -
  have "examplePcap\<lparr>nat' := Map.empty\<rparr> = examplePcap"
    by (simp add: examplePcap_def)
  then show ?thesis
    using exampleInbound [of Map.empty] by simp
qed

lemma carrierWith_payload: "Packet.ApplicationLayer (carrierWith payload) = payload"
  by (simp add: carrierWith_def)




lemma ip6_strings:
  "IP_String [0x20, 0x01, 0x0d, 0xb8, 0, 0, 0, 0, 0, 0, 0, 0, 0, 0, 0, 1] = ''2001:db8::1''"
  "IP_String [0x20, 0x01, 0x0d, 0xb8, 0, 0, 0, 0, 0, 0, 0, 0, 0, 0, 0, 2] = ''2001:db8::2''"
  "IP_String [0x20, 0x11, 0x0d, 0xb8, 0, 0, 0, 0, 0, 0, 0, 0, 0xc3, 0x50, 0xc3, 0x51]
     = ''2011:db8::c350:c351''"
  by (simp_all add: IP_String_def To4_def longestZeroRun_def zeroRun_def appendHex_def
      hexDigit_def upt_rec Let_def)

lemma exampleReply6_as_IPv4:
  "\<exists>l. Packet.NetworkLayer (NewPacket_plain exampleReply6 LayerTypeIPv4) = Some (NetIPv4 l)
       \<and> IPv4.Version l = 6 \<and> IHL l = 0"
  "Packet.TransportLayer (NewPacket_plain exampleReply6 LayerTypeIPv4) = None"
  by (simp_all add: NewPacket_plain_def decodeIPv4Header_def exampleReply6_def word16_def
      Let_def)

lemma exampleReply6_as_IPv6:
  "NewPacket_plain exampleReply6 LayerTypeIPv6 =
     \<lparr>NetworkLayer = Some (NetIPv6
        \<lparr>IPv6.Contents = take 40 exampleReply6, IPv6.Version = 6, TrafficClass = 0,
         FlowLabel = 0, IPv6.Length = 20, NextHeader = 6, HopLimit = 64,
         IPv6.SrcIP = [0x20, 0x01, 0x0d, 0xb8, 0, 0, 0, 0, 0, 0, 0, 0, 0, 0, 0, 1],
         IPv6.DstIP = [0x20, 0x01, 0x0d, 0xb8, 0, 0, 0, 0, 0, 0, 0, 0, 0, 0, 0, 2]\<rparr>),
      TransportLayer = Some (TransTCP
        \<lparr>TCP.Contents = drop 40 exampleReply6, TCP.SrcPort = 443, TCP.DstPort = 50000,
         Seq' = 7, Ack = 2, DataOffset = 5, FIN = False, SYN = True, RST = False, PSH = False,
         ACK = True, URG = False, ECE = False, CWR = False, NS = False, Window = 65535,
         TCP.Checksum = 0x8f49, Urgent = 0, TCP.pseudoheader = None\<rparr>),
      ApplicationLayer = None\<rparr>"
  by (simp add: NewPacket_plain_def decodeTransport_def decodeIPv6Header_def decodeTCPHeader_def
      payloadLayer_def exampleReply6_def word16_def word32_def IPProtocolTCP_def Let_def)

lemma exampleDual_as_IPv4:
  "NewPacket_plain exampleDual LayerTypeIPv4 =
     \<lparr>NetworkLayer = Some (NetIPv4
        \<lparr>IPv4.Contents = take 20 exampleDual, IPv4.Version = 6, IHL = 5, TOS = 0,
         IPv4.Length = 48, Id' = 8, Flags = 2, FragOffset = 0, TTL = 32, IPv4.Protocol = 17,
         IPv4.Checksum = 0x0db8, IPv4.SrcIP = [0, 0, 0, 0], IPv4.DstIP = [0, 0, 0, 0]\<rparr>),
      TransportLayer = Some (TransUDP
        \<lparr>UDP.Contents = [0xc3, 0x50, 0xc3, 0x51, 0x20, 0x01, 0x0d, 0xb8],
         UDP.SrcPort = 50000, UDP.DstPort = 50001, UDP.Length = 0x2001,
         UDP.Checksum = 0x0db8, UDP.pseudoheader = None\<rparr>),
      ApplicationLayer = Some (drop 28 exampleDual)\<rparr>"
  by (simp add: NewPacket_plain_def decodeTransport_def decodeIPv4Header_def decodeUDPHeader_def
      payloadLayer_def exampleDual_def word16_def IPProtocolTCP_def IPProtocolUDP_def
      IPv4MoreFragments_def Let_def)

lemma exampleDual_as_IPv6:
  "NewPacket_plain exampleDual LayerTypeIPv6 =
     \<lparr>NetworkLayer = Some (NetIPv6
        \<lparr>IPv6.Contents = take 40 exampleDual, IPv6.Version = 6, TrafficClass = 0x50,
         FlowLabel = 0x30, IPv6.Length = 8, NextHeader = 64, HopLimit = 0,
         IPv6.SrcIP = [0x20, 0x11, 0x0d, 0xb8, 0, 0, 0, 0, 0, 0, 0, 0, 0xc3, 0x50, 0xc3, 0x51],
         IPv6.DstIP = [0x20, 0x01, 0x0d, 0xb8, 0, 0, 0, 0, 0, 0, 0, 0, 0, 0, 0, 1]\<rparr>),
      TransportLayer = None, ApplicationLayer = None\<rparr>"
  by (simp add: NewPacket_plain_def decodeTransport_def decodeIPv6Header_def
      exampleDual_def word16_def word32_def IPProtocolTCP_def IPProtocolUDP_def Let_def)

lemma exampleLoopPcap_fields:
  "upHandle exampleLoopPcap = 0" "nat' exampleLoopPcap = Map.empty"
  "UpDev exampleLoopPcap = exampleLoopDev" "IsLoop exampleLoopDev"
  by (simp_all add: exampleLoopPcap_def exampleLoopDev_def)

lemma exampleInbound6:
  "handle NewPacket_plain (exampleLoopPcap\<lparr>nat' := m\<rparr>) (carrierWith (Some exampleReply6)) =
     (Dropped MissingTransportLayer, exampleLoopPcap\<lparr>nat' := m\<rparr>)"
  using exampleReply6_as_IPv4
  by (auto simp add: handle_def encappedNetwork_def carrierWith_payload exampleReply6_as_IPv6)

lemma exampleInboundDual:
  "handle NewPacket_plain (exampleLoopPcap\<lparr>nat' := m\<rparr>) (carrierWith (Some exampleDual)) =
     (Written (case m exampleDualKey of None \<Rightarrow> 0 | Some h \<Rightarrow> h) ([0, 0, 0, 0] @ exampleDual),
      exampleLoopPcap\<lparr>nat' := m\<rparr>)"
  by (simp add: handle_def encappedNetwork_def carrierWith_payload exampleDual_as_IPv4
      exampleDual_as_IPv6 newLink_def exampleLoopPcap_fields SerializeLayers_Loopback
      reverseQuintuple_def ip6_strings exampleDualKey_def Let_def split: option.splits)


lemma exampleOther_observed: "observedQuintuple (exampleOther n) = Some (exampleOtherKey n)"
  by (simp add: observedQuintuple_def exampleOther_def exampleOtherKey_def decodeIPv4Header_def
      exampleRequest_def example_strings)

lemma exampleGateways:
  "gatewayDevIP examplePcap = Some [192, 168, 1, 1]"
  "gatewayDevIP (examplePcap\<lparr>GatewayDev := exampleGatewayDev6\<rparr>)
     = Some [0xfe, 0x80, 0, 0, 0, 0, 0, 0, 0, 0, 0, 0, 0, 0, 0, 1]"
  "To4 [192, 168, 1, 1] \<noteq> None"
  "To4 [0xfe, 0x80, 0, 0, 0, 0, 0, 0, 0, 0, 0, 0, 0, 0, 0, 1] = None"
  "Device_IPv4 exampleUpDev = Some [192, 168, 1, 10]"
  by (simp_all add: gatewayDevIP_def examplePcap_def exampleGatewayDev_def exampleGatewayDev6_def
      exampleUpDev_def To4_def Device_IPv4_def)


text \<open>
  The sum of a header and the folding of a sum: a 16-bit field adds its value, and
  folding keeps a sum modulo 65535, so a sum that folds to all ones is a multiple of
  65535.
\<close>

lemma unat_be16: "unat (ucast (drop_bit 8 v) :: byte) * 256 + unat (ucast v :: byte) = unat v"
  for v :: uint16
proof -
  have "unat v < 65536"
    using unsigned_less [of v, where ?'a = nat] by simp
  then have small: "unat v div 256 < 256"
    by simp
  have shifted: "unat (drop_bit 8 v) = unat v div 256"
    by (subst unat_drop_bit_eq) (simp add: drop_bit_eq_div)
  have "unat (ucast (drop_bit 8 v) :: byte) = unat (drop_bit 8 v) mod 256"
    by (subst unsigned_ucast_eq) (simp add: take_bit_eq_mod)
  then have hi: "unat (ucast (drop_bit 8 v) :: byte) = unat v div 256"
    using small shifted by simp
  have lo: "unat (ucast v :: byte) = unat v mod 256"
    by (subst unsigned_ucast_eq) (simp add: take_bit_eq_mod)
  show ?thesis
    unfolding hi lo by simp
qed

lemma sum16_be16: "sum16 (be16 v @ rest) = unat v + sum16 rest"
  using unat_be16 [of v] by (simp add: be16_def)

lemma fold16_mod: "fold16 n mod 65535 = n mod 65535"
proof (induction n rule: fold16.induct)
  case (1 n)
  show ?case
  proof (cases "n < 65536")
    case True
    then show ?thesis
      by (subst fold16.simps) simp
  next
    case False
    define m where "m = n mod 65536 + n div 65536"
    have "n = 65536 * (n div 65536) + n mod 65536"
      by simp
    then have whole: "65535 * (n div 65536) + m = n"
      unfolding m_def by linarith
    have "fold16 n = fold16 m"
      using False unfolding m_def by (subst fold16.simps) simp
    moreover have "fold16 m mod 65535 = m mod 65535"
      using "1" False unfolding m_def by simp
    moreover have "m mod 65535 = (65535 * (n div 65536) + m) mod 65535"
      by (simp only: mod_mult_self4)
    ultimately show ?thesis
      by (simp only: whole)
  qed
qed

lemma fold16_ones:
  assumes "fold16 n = 65535"
  shows "n mod 65535 = 0"
  using fold16_mod [of n] assms by simp

lemma header_lengths:
  "length (TCP_header t) = 20"
  "length src = 4 \<Longrightarrow> length dst = 4 \<Longrightarrow> length (IPv4_header ip src dst) = 20"
  by (simp_all add: TCP_header_def IPv4_header_def be16_def be32_def)

text \<open>
  The first scenario from any value of the counters and of the table, for any two
  checksum functions.
\<close>

lemma exampleRun_state:
  "handleListen cs tcs (examplePcap\<lparr>seq := s, id' := i, nat' := m\<rparr>)
       (NewPacket_plain exampleRequest LayerTypeIPv4) 2 =
     (Written 0
        ([2, 0, 0, 0, 0, 254, 2, 0, 0, 0, 0, 1, 0x08, 0x00]
         @ IPv4_header ((createIPv4 [192, 168, 1, 10] [203, 0, 113, 5] i 63)
                          \<lparr>IPv4.Length := 360, IPv4.Checksum := cs []\<rparr>)
             [192, 168, 1, 10] [203, 0, 113, 5]
         @ TCP_header ((createTCP 10000 443 s)
                          \<lparr>TCP.Checksum := tcs (createTCP 10000 443 s) exampleRequest
                             (createIPv4 [192, 168, 1, 10] [203, 0, 113, 5] i 63)\<rparr>)
         @ exampleRequest),
      examplePcap\<lparr>seq := s + 1, id' := i + 1, nat' := m(exampleQuintuple \<mapsto> 2)\<rparr>)"
proof -
  have len: "length exampleRequest = 40"
    by (simp add: exampleRequest_def)
  have contents: "take 20 exampleRequest @ drop 20 exampleRequest = exampleRequest"
    by simp
  show ?thesis
    unfolding exampleRequest_decoded
    by (simp add: handleListen_def Let_def tunnelContents_def examplePcap_def exampleUpDev_def
        exampleGatewayDev_def gatewayDevIP_def To4_def Device_IPv4_def newLink_def
        SerializeLayers_def be16_def EthernetTypeIPv4_def EthernetTypeLLC_def
        example_strings exampleQuintuple_def len contents createIPv4_def IPv4_zero_def
        header_lengths)
qed

lemma exampleHeader_sum:
  "sum16 (IPv4_header ((createIPv4 [192, 168, 1, 10] [203, 0, 113, 5] i 63)
                          \<lparr>IPv4.Length := 360, IPv4.Checksum := c\<rparr>)
             [192, 168, 1, 10] [203, 0, 113, 5])
     = 181029 + unat i + unat c"
  by (simp add: IPv4_header_def sum16_be16 createIPv4_def IPv4_zero_def flagsfrags_def
      IPv4DontFragment_def IPProtocolTCP_def)

lemma examplePcap_start: "examplePcap\<lparr>seq := 0, id' := 0, nat' := Map.empty\<rparr> = examplePcap"
  by (simp add: examplePcap_def)

lemma checkSum_spec_empty: "checkSum_spec [] = 0xFFFF"
  by (simp add: checkSum_spec_def fold16.simps)

text \<open>
  With the TCP checksum of the spec, the TCP checksum of that frame verifies against
  the pseudo-header of the addresses in the written header, protocol 6 and the length
  of the carrier TCP header and the tunnel payload.
\<close>

lemma exampleRun_tcp_checksum:
  "tcpChecksumVerifies [192, 168, 1, 10] [203, 0, 113, 5]
     (drop 34 (frame (fst (handleListen checkSum_spec CheckTCPIPv4Sum_spec examplePcap
        (NewPacket_plain exampleRequest LayerTypeIPv4) 2))))"
proof -
  have sum: "sum16 (pseudoHeader [192, 168, 1, 10] [203, 0, 113, 5] 60
               @ TCP_header ((createTCP 10000 443 0)\<lparr>TCP.Checksum := 0\<rparr>) @ exampleRequest)
             = 416940"
    by (simp add: createTCP_def TCP_zero_def TCP_header_def flagsAndOffset_def pseudoHeader_def
        IPProtocolTCP_def be16_def be32_def exampleRequest_def)
  have folded: "fold16 416940 = 23730"
    by (simp add: fold16.simps)
  have len: "length exampleRequest = 40"
    by (simp add: exampleRequest_def)
  have computed: "CheckTCPIPv4Sum_spec (createTCP 10000 443 0) exampleRequest
      (createIPv4 [192, 168, 1, 10] [203, 0, 113, 5] 0 63) = 0xa34d"
    by (simp add: CheckTCPIPv4Sum_spec_def Let_def header_lengths len sum folded createIPv4_def
        IPv4_zero_def)
  have sum': "sum16 (pseudoHeader [192, 168, 1, 10] [203, 0, 113, 5] 60
               @ [0x27, 0x10, 0x01, 0xbb, 0, 0, 0, 0, 0, 0, 0, 0, 0x50, 0x18, 0, 0]
               @ be16 0xa34d @ [0, 0] @ exampleRequest)
             = 458745"
    by (simp add: pseudoHeader_def IPProtocolTCP_def be16_def exampleRequest_def)
  have folded': "fold16 458745 = 65535"
    by (simp add: fold16.simps)
  have two: "length (be16 v) = 2" for v
    by (simp add: be16_def)
  have "drop 34 (frame (fst (handleListen checkSum_spec CheckTCPIPv4Sum_spec examplePcap
        (NewPacket_plain exampleRequest LayerTypeIPv4) 2)))
      = [0x27, 0x10, 0x01, 0xbb, 0, 0, 0, 0, 0, 0, 0, 0, 0x50, 0x18, 0, 0]
        @ be16 0xa34d @ [0, 0] @ exampleRequest"
    by (simp add: exampleRun computed two)
  then show ?thesis
    using sum' folded' by (simp add: tcpChecksumVerifies_def two len)
qed


section \<open>The claims\<close>

subsection \<open>The layer builder\<close>

text \<open>
  Claim C7. For all inputs to \<^verbatim>\<open>CreateIPv4Layer\<close> (source address, destination address,
  id, ttl, transport layer): it fails if either address is not IPv4-representable; it
  fails if the transport layer is neither TCP nor UDP; otherwise it returns a header
  with version 4, IHL 5, the DF flag set (and no other flag), fragment offset 0, the
  given ttl and id, the protocol TCP or UDP after the kind of the transport layer,
  checksum and length unset (0), and the given addresses; and the transport layer,
  otherwise unchanged, is bound to that header for its checksum.
\<close>

theorem CreateIPv4Layer_result:
  "(To4 srcIP = None \<or> To4 dstIP = None
      \<longrightarrow> isl (CreateIPv4Layer srcIP dstIP idv ttl transportLayer))
   \<and> (TransportLayer_LayerType transportLayer \<noteq> LayerTypeTCP
        \<and> TransportLayer_LayerType transportLayer \<noteq> LayerTypeUDP
      \<longrightarrow> isl (CreateIPv4Layer srcIP dstIP idv ttl transportLayer))
   \<and> (To4 srcIP \<noteq> None \<and> To4 dstIP \<noteq> None
        \<and> (TransportLayer_LayerType transportLayer = LayerTypeTCP
             \<or> TransportLayer_LayerType transportLayer = LayerTypeUDP)
      \<longrightarrow> (\<exists>ipv4 bound.
            CreateIPv4Layer srcIP dstIP idv ttl transportLayer = Inr (ipv4, bound)
            \<and> IPv4.Version ipv4 = 4 \<and> IHL ipv4 = 5
            \<and> Flags ipv4 = IPv4DontFragment \<and> flagSet IPv4DontFragment (Flags ipv4)
            \<and> FragOffset ipv4 = 0 \<and> TTL ipv4 = ttl \<and> Id' ipv4 = idv
            \<and> IPv4.Protocol ipv4 =
                (if TransportLayer_LayerType transportLayer = LayerTypeTCP
                 then IPProtocolTCP else IPProtocolUDP)
            \<and> IPv4.Checksum ipv4 = 0 \<and> IPv4.Length ipv4 = 0
            \<and> IPv4.SrcIP ipv4 = srcIP \<and> IPv4.DstIP ipv4 = dstIP
            \<and> TransportLayer_LayerType bound = TransportLayer_LayerType transportLayer
            \<and> TransportLayer_LayerContents bound = TransportLayer_LayerContents transportLayer
            \<and> layerPorts bound = layerPorts transportLayer
            \<and> TransportLayer_pseudoheader bound = Some (NetIPv4 ipv4)))"
  by (cases transportLayer)
     (auto simp: CreateIPv4Layer_def Let_def IPv4_zero_def flagSet_def IPv4DontFragment_def)

text \<open>
  The three cases on inputs: a source address of three bytes, a transport layer of
  another type (numbered 132 here), and a UDP layer between two IPv4
  addresses.
\<close>

theorem CreateIPv4Layer_result_witness:
  "isl (CreateIPv4Layer [1, 2, 3] [10, 0, 0, 2] 7 64 (TransTCP (CreateTCPLayer 1 2 3 4)))
   \<and> isl (CreateIPv4Layer [10, 0, 0, 1] [10, 0, 0, 2] 7 64 (TransOther 132 []))
   \<and> (\<exists>ipv4 bound.
         CreateIPv4Layer [10, 0, 0, 1] [10, 0, 0, 2] 7 64 (TransUDP (CreateUDPLayer 53 53))
           = Inr (ipv4, bound)
         \<and> IPv4.Version ipv4 = 4 \<and> IHL ipv4 = 5 \<and> Flags ipv4 = IPv4DontFragment
         \<and> FragOffset ipv4 = 0 \<and> TTL ipv4 = 64 \<and> Id' ipv4 = 7
         \<and> IPv4.Protocol ipv4 = IPProtocolUDP \<and> IPv4.Checksum ipv4 = 0 \<and> IPv4.Length ipv4 = 0
         \<and> TransportLayer_pseudoheader bound = Some (NetIPv4 ipv4))"
  using CreateIPv4Layer_result [of "[1, 2, 3]" "[10, 0, 0, 2]" 7 64 "TransTCP (CreateTCPLayer 1 2 3 4)"]
    CreateIPv4Layer_result [of "[10, 0, 0, 1]" "[10, 0, 0, 2]" 7 64 "TransOther 132 []"]
    CreateIPv4Layer_result [of "[10, 0, 0, 1]" "[10, 0, 0, 2]" 7 64 "TransUDP (CreateUDPLayer 53 53)"]
  by (simp add: To4_def) blast

text \<open>
  Claim C8, as the code has it. For every IPv4 layer and every df, mf and offset,
  after \<^verbatim>\<open>FlagIPv4Layer\<close> the flags field is MF alone when mf is requested (also when
  df is requested with it), DF alone when df is requested and mf is not, and no flag
  when neither is requested: DF and MF are never set together; and the fragment offset
  is the given offset.
\<close>

theorem FlagIPv4Layer_flags:
  "Flags (FlagIPv4Layer layer df mf offset)
     = (if mf then IPv4MoreFragments else if df then IPv4DontFragment else 0)
   \<and> FragOffset (FlagIPv4Layer layer df mf offset) = offset
   \<and> \<not> (flagSet IPv4DontFragment (Flags (FlagIPv4Layer layer df mf offset))
        \<and> flagSet IPv4MoreFragments (Flags (FlagIPv4Layer layer df mf offset)))
   \<and> flagSet IPv4MoreFragments (Flags (FlagIPv4Layer layer df mf offset)) = mf
   \<and> flagSet IPv4DontFragment (Flags (FlagIPv4Layer layer df mf offset)) = (df \<and> \<not> mf)"
  by (simp add: FlagIPv4Layer_def flagSet_def IPv4DontFragment_def IPv4MoreFragments_def)

text \<open>
  The claim as it was stated has DF set whenever df is requested. With df and mf
  both requested the second assignment overwrites the first, and DF is not set.
\<close>

theorem FlagIPv4Layer_flags_counterexample:
  "\<not> flagSet IPv4DontFragment (Flags (FlagIPv4Layer IPv4_zero True True 0))"
  by (simp add: FlagIPv4Layer_def flagSet_def IPv4DontFragment_def IPv4MoreFragments_def)

subsection \<open>The outbound pipeline\<close>

text \<open>
  Claim C2. For every frame the outbound pipeline writes, the seq counter has
  advanced by exactly one (modulo \<open>2 ^ 32\<close>) and the id counter by exactly one (modulo
  \<open>2 ^ 16\<close>) relative to their values before the packet was processed. Every frame the
  pipeline writes is an IPv4 carrier frame.
\<close>

theorem handleListen_counters:
  assumes "isWritten (fst (handleListen checkSum CheckTCPIPv4Sum p packet h))"
  shows "seq (snd (handleListen checkSum CheckTCPIPv4Sum p packet h)) = seq p + 1
       \<and> id' (snd (handleListen checkSum CheckTCPIPv4Sum p packet h)) = id' p + 1"
  using handleListen_Written [OF assms] by auto

theorem handleListen_counters_witness:
  "isWritten (fst (handleListen checkSum_spec CheckTCPIPv4Sum_spec examplePcap
       (NewPacket_plain exampleRequest LayerTypeIPv4) 2))
   \<and> seq (snd (handleListen checkSum_spec CheckTCPIPv4Sum_spec examplePcap
       (NewPacket_plain exampleRequest LayerTypeIPv4) 2)) = 1
   \<and> id' (snd (handleListen checkSum_spec CheckTCPIPv4Sum_spec examplePcap
       (NewPacket_plain exampleRequest LayerTypeIPv4) 2)) = 1"
  using handleListen_counters [of checkSum_spec CheckTCPIPv4Sum_spec examplePcap
      "NewPacket_plain exampleRequest LayerTypeIPv4" 2]
  by (simp add: exampleRun)

text \<open>
  Claim C3, as the code has it. For every packet observed on a listen handle whose
  five-tuple is Q (source address, source port, destination address, destination
  port, and the layer type of its transport layer; both ports are 0 when the
  transport layer is neither TCP nor UDP, and the type is then the type of that
  layer), and a gateway that has a first address: when that address is an IPv4
  address and the upstream device has an IPv4 address, the NAT table after the
  pipeline has processed the packet is the table before with Q bound to that handle,
  whether the frame could be serialized or not; otherwise the packet is dropped and
  the table is as it was.
\<close>

theorem handleListen_nat:
  assumes "observedQuintuple packet = Some q" and "gatewayDevIP p = Some gatewayIP"
  shows "(if To4 gatewayIP \<noteq> None \<and> Device_IPv4 (UpDev p) \<noteq> None
          then nat' (snd (handleListen checkSum CheckTCPIPv4Sum p packet h)) = (nat' p)(q \<mapsto> h)
          else (\<exists>e. fst (handleListen checkSum CheckTCPIPv4Sum p packet h) = Dropped e)
               \<and> nat' (snd (handleListen checkSum CheckTCPIPv4Sum p packet h)) = nat' p)
       \<and> (\<forall>n c. Packet.TransportLayer packet = Some (TransOther n c)
             \<longrightarrow> SrcPort q = 0 \<and> DstPort q = 0 \<and> Protocol q = LayerTypeOther n)"
  using assms
  by (auto simp: observedQuintuple_def handleListen_def Let_def newLink_def
      split: option.splits sum.splits prod.splits)


theorem handleListen_nat_witness:
  "observedQuintuple (NewPacket_plain exampleRequest LayerTypeIPv4) = Some exampleQuintuple
   \<and> gatewayDevIP examplePcap = Some [192, 168, 1, 1]
   \<and> nat' (snd (handleListen checkSum_spec CheckTCPIPv4Sum_spec examplePcap
                  (NewPacket_plain exampleRequest LayerTypeIPv4) 2)) = [exampleQuintuple \<mapsto> 2]
   \<and> gatewayDevIP (examplePcap\<lparr>GatewayDev := exampleGatewayDev6\<rparr>)
       = Some [0xfe, 0x80, 0, 0, 0, 0, 0, 0, 0, 0, 0, 0, 0, 0, 0, 1]
   \<and> (\<exists>e. fst (handleListen checkSum_spec CheckTCPIPv4Sum_spec
                  (examplePcap\<lparr>GatewayDev := exampleGatewayDev6\<rparr>)
                  (NewPacket_plain exampleRequest LayerTypeIPv4) 2) = Dropped e)
   \<and> nat' (snd (handleListen checkSum_spec CheckTCPIPv4Sum_spec
                  (examplePcap\<lparr>GatewayDev := exampleGatewayDev6\<rparr>)
                  (NewPacket_plain exampleRequest LayerTypeIPv4) 2)) = Map.empty
   \<and> observedQuintuple (exampleOther 27) = Some (exampleOtherKey 27)
   \<and> Packet.TransportLayer (exampleOther 27) = Some (TransOther 27 (drop 20 exampleRequest))
   \<and> nat' (snd (handleListen checkSum_spec CheckTCPIPv4Sum_spec examplePcap
                  (exampleOther 27) 2)) = [exampleOtherKey 27 \<mapsto> 2]
   \<and> SrcPort (exampleOtherKey 27) = 0 \<and> DstPort (exampleOtherKey 27) = 0
   \<and> Protocol (exampleOtherKey 27) = LayerTypeOther 27"
  using handleListen_nat [of "NewPacket_plain exampleRequest LayerTypeIPv4" exampleQuintuple
      examplePcap "[192, 168, 1, 1]" checkSum_spec CheckTCPIPv4Sum_spec 2]
    handleListen_nat [of "NewPacket_plain exampleRequest LayerTypeIPv4" exampleQuintuple
      "examplePcap\<lparr>GatewayDev := exampleGatewayDev6\<rparr>"
      "[0xfe, 0x80, 0, 0, 0, 0, 0, 0, 0, 0, 0, 0, 0, 0, 0, 1]" checkSum_spec CheckTCPIPv4Sum_spec 2]
    handleListen_nat [of "exampleOther 27" "exampleOtherKey 27"
      examplePcap "[192, 168, 1, 1]" checkSum_spec CheckTCPIPv4Sum_spec 2]
  by (simp add: exampleRequest_observed exampleOther_observed exampleGateways examplePcap_fields)
     (simp add: exampleOther_def)

text \<open>
  The claim as it was stated holds for every observed packet and has one tag, Other,
  for every transport layer that is neither TCP nor UDP. With a gateway whose first
  address is an IPv6 address the pipeline returns before it writes the table: the
  packet of the first scenario leaves the table empty. And the table is keyed by the
  layer type: two packets between the same addresses with transport layers of two
  other types have the same five-tuple in the spec's sense, and after the first was
  observed on handle 2 and the second on handle 3 the table binds the key of the
  first to 2 and the key of the second to 3.
\<close>

theorem handleListen_nat_counterexample:
  "observedQuintuple (NewPacket_plain exampleRequest LayerTypeIPv4) = Some exampleQuintuple
   \<and> nat' (snd (handleListen checkSum_spec CheckTCPIPv4Sum_spec
                  (examplePcap\<lparr>GatewayDev := exampleGatewayDev6\<rparr>)
                  (NewPacket_plain exampleRequest LayerTypeIPv4) 2)) exampleQuintuple = None
   \<and> observedQuintuple (exampleOther 27) = Some (exampleOtherKey 27)
   \<and> observedQuintuple (exampleOther 28) = Some (exampleOtherKey 28)
   \<and> specFiveTuple (exampleOtherKey 27) = (''10.0.0.2'', 0, ''8.8.8.8'', 0, KindOther)
   \<and> specFiveTuple (exampleOtherKey 28) = (''10.0.0.2'', 0, ''8.8.8.8'', 0, KindOther)
   \<and> nat' (snd (handleListen checkSum_spec CheckTCPIPv4Sum_spec
                  (snd (handleListen checkSum_spec CheckTCPIPv4Sum_spec examplePcap
                          (exampleOther 27) 2))
                  (exampleOther 28) 3)) (exampleOtherKey 27) = Some 2
   \<and> nat' (snd (handleListen checkSum_spec CheckTCPIPv4Sum_spec
                  (snd (handleListen checkSum_spec CheckTCPIPv4Sum_spec examplePcap
                          (exampleOther 27) 2))
                  (exampleOther 28) 3)) (exampleOtherKey 28) = Some 3"
proof -
  let ?p = "snd (handleListen checkSum_spec CheckTCPIPv4Sum_spec examplePcap (exampleOther 27) 2)"
  have first: "nat' ?p = [exampleOtherKey 27 \<mapsto> 2]"
    using handleListen_table [of "exampleOther 27" "exampleOtherKey 27" examplePcap
        "[192, 168, 1, 1]" "[192, 168, 1, 10]" checkSum_spec CheckTCPIPv4Sum_spec 2]
    by (simp add: exampleOther_observed examplePcap_fields exampleGateways)
  have gateway: "gatewayDevIP ?p = Some [192, 168, 1, 1]"
    using exampleGateways(1) by (simp add: gatewayDevIP_def handleListen_devices)
  have up: "Device_IPv4 (UpDev ?p) = Some [192, 168, 1, 10]"
    by (simp add: handleListen_devices examplePcap_fields exampleGateways)
  have second: "nat' (snd (handleListen checkSum_spec CheckTCPIPv4Sum_spec ?p (exampleOther 28) 3))
      = [exampleOtherKey 27 \<mapsto> 2, exampleOtherKey 28 \<mapsto> 3]"
    using handleListen_table [of "exampleOther 28" "exampleOtherKey 28" ?p
        "[192, 168, 1, 1]" "[192, 168, 1, 10]" checkSum_spec CheckTCPIPv4Sum_spec 3]
    by (simp add: exampleOther_observed gateway up exampleGateways first)
  have different: "exampleOtherKey 27 \<noteq> exampleOtherKey 28"
    by (simp add: exampleOtherKey_def)
  show ?thesis
    using different
    by (simp add: second exampleRequest_observed exampleRun6 examplePcap_fields
        exampleOther_observed specFiveTuple_def exampleOtherKey_def)
qed

text \<open>
  Claim C9. Every carrier TCP header the outbound pipeline writes is the header of
  the layer built by \<^verbatim>\<open>createTCP\<close> from the upstream port, the server port and the seq
  counter, with its checksum filled in: data offset 5, PSH and ACK, the given ports
  and sequence number, and the window and the acknowledgment number left at 0;
  \<^verbatim>\<open>CreateTCPLayer\<close> sets the window to 65535 and takes the acknowledgment number as
  an argument.
\<close>

theorem carrier_tcp_header:
  "(isWritten (fst (handleListen checkSum CheckTCPIPv4Sum p packet h))
      \<longrightarrow> (\<exists>link ipv4 c contents pre post.
             SerializeLayers
               [link, SIPv4 ipv4,
                STCP ((createTCP (UpPort p) (ServerPort p) (seq p))\<lparr>TCP.Checksum := c\<rparr>),
                SPayload contents]
               = Inr (frame (fst (handleListen checkSum CheckTCPIPv4Sum p packet h)))
             \<and> frame (fst (handleListen checkSum CheckTCPIPv4Sum p packet h))
                 = pre @ TCP_header ((createTCP (UpPort p) (ServerPort p) (seq p))
                                       \<lparr>TCP.Checksum := c\<rparr>) @ contents @ post))
   \<and> TCP_header ((createTCP srcPort dstPort seqv)\<lparr>TCP.Checksum := c\<rparr>)
       = be16 srcPort @ be16 dstPort @ be32 seqv @ [0, 0, 0, 0] @ [0x50, 0x18] @ [0, 0]
         @ be16 c @ [0, 0]
   \<and> DataOffset (createTCP srcPort dstPort seqv) = 5
   \<and> PSH (createTCP srcPort dstPort seqv) \<and> ACK (createTCP srcPort dstPort seqv)
   \<and> TCP.SrcPort (createTCP srcPort dstPort seqv) = srcPort
   \<and> TCP.DstPort (createTCP srcPort dstPort seqv) = dstPort
   \<and> Seq' (createTCP srcPort dstPort seqv) = seqv
   \<and> Window (createTCP srcPort dstPort seqv) = 0
   \<and> Ack (createTCP srcPort dstPort seqv) = 0
   \<and> Window (CreateTCPLayer srcPort dstPort seqv ackv) = 65535
   \<and> Ack (CreateTCPLayer srcPort dstPort seqv ackv) = ackv"
proof -
  have emitted: "\<exists>link ipv4 c contents pre post.
      SerializeLayers
        [link, SIPv4 ipv4,
         STCP ((createTCP (UpPort p) (ServerPort p) (seq p))\<lparr>TCP.Checksum := c\<rparr>),
         SPayload contents]
        = Inr (frame (fst (handleListen checkSum CheckTCPIPv4Sum p packet h)))
      \<and> frame (fst (handleListen checkSum CheckTCPIPv4Sum p packet h))
          = pre @ TCP_header ((createTCP (UpPort p) (ServerPort p) (seq p))
                                \<lparr>TCP.Checksum := c\<rparr>) @ contents @ post"
    if written: "isWritten (fst (handleListen checkSum CheckTCPIPv4Sum p packet h))"
  proof -
    obtain link ipv4 c contents data where
        ser: "SerializeLayers
          [link, SIPv4 ipv4,
           STCP ((createTCP (UpPort p) (ServerPort p) (seq p))\<lparr>TCP.Checksum := c\<rparr>),
           SPayload contents] = Inr data"
        and run: "fst (handleListen checkSum CheckTCPIPv4Sum p packet h) = Written (upHandle p) data"
      using handleListen_Written [OF written] by (metis fst_conv)
    obtain pre src dst post where
        "data = pre @ IPv4_header ipv4 src dst
           @ TCP_header ((createTCP (UpPort p) (ServerPort p) (seq p))\<lparr>TCP.Checksum := c\<rparr>)
           @ contents @ post"
      using SerializeLayers_carrier [OF ser] by blast
    then have "data = (pre @ IPv4_header ipv4 src dst)
           @ TCP_header ((createTCP (UpPort p) (ServerPort p) (seq p))\<lparr>TCP.Checksum := c\<rparr>)
           @ contents @ post"
      by simp
    with ser run show ?thesis
      by (metis frame.simps(1))
  qed
  have header: "TCP_header ((createTCP srcPort dstPort seqv)\<lparr>TCP.Checksum := c\<rparr>)
       = be16 srcPort @ be16 dstPort @ be32 seqv @ [0, 0, 0, 0] @ [0x50, 0x18] @ [0, 0]
         @ be16 c @ [0, 0]"
    by (simp add: TCP_header_def createTCP_def TCP_zero_def flagsAndOffset_def be16_def be32_def)
  have fields: "DataOffset (createTCP srcPort dstPort seqv) = 5
   \<and> PSH (createTCP srcPort dstPort seqv) \<and> ACK (createTCP srcPort dstPort seqv)
   \<and> TCP.SrcPort (createTCP srcPort dstPort seqv) = srcPort
   \<and> TCP.DstPort (createTCP srcPort dstPort seqv) = dstPort
   \<and> Seq' (createTCP srcPort dstPort seqv) = seqv
   \<and> Window (createTCP srcPort dstPort seqv) = 0
   \<and> Ack (createTCP srcPort dstPort seqv) = 0
   \<and> Window (CreateTCPLayer srcPort dstPort seqv ackv) = 65535
   \<and> Ack (CreateTCPLayer srcPort dstPort seqv ackv) = ackv"
    by (simp add: createTCP_def CreateTCPLayer_def TCP_zero_def)
  from emitted header fields show ?thesis
    by blast
qed

theorem carrier_tcp_header_witness:
  "isWritten (fst (handleListen checkSum_spec CheckTCPIPv4Sum_spec examplePcap
       (NewPacket_plain exampleRequest LayerTypeIPv4) 2))
   \<and> (\<exists>link ipv4 c contents pre post.
         SerializeLayers
           [link, SIPv4 ipv4,
            STCP ((createTCP (UpPort examplePcap) (ServerPort examplePcap) (seq examplePcap))
                    \<lparr>TCP.Checksum := c\<rparr>),
            SPayload contents]
           = Inr (frame (fst (handleListen checkSum_spec CheckTCPIPv4Sum_spec examplePcap
                    (NewPacket_plain exampleRequest LayerTypeIPv4) 2)))
         \<and> frame (fst (handleListen checkSum_spec CheckTCPIPv4Sum_spec examplePcap
                    (NewPacket_plain exampleRequest LayerTypeIPv4) 2))
             = pre @ TCP_header ((createTCP (UpPort examplePcap) (ServerPort examplePcap)
                                    (seq examplePcap))\<lparr>TCP.Checksum := c\<rparr>) @ contents @ post)"
proof -
  have written: "isWritten (fst (handleListen checkSum_spec CheckTCPIPv4Sum_spec examplePcap
       (NewPacket_plain exampleRequest LayerTypeIPv4) 2))"
    by (simp add: exampleRun)
  with carrier_tcp_header [of checkSum_spec CheckTCPIPv4Sum_spec examplePcap
      "NewPacket_plain exampleRequest LayerTypeIPv4" 2]
  show ?thesis
    by blast
qed


text \<open>
  Claim C1 fails on the code. The packet of the first scenario is written as a frame
  whose IPv4 header carries the checksum of no bytes (0xffff with the checksum of the
  spec) and the length 360, and the one's-complement sum of that header is not all
  ones. Whatever the two checksum functions compute, the headers of the first two
  frames of a run, which differ in the id alone and carry the same checksum, do not
  both verify.
\<close>

theorem handleListen_ipv4_checksum_fails:
  "isWritten (fst (handleListen checkSum_spec CheckTCPIPv4Sum_spec examplePcap
       (NewPacket_plain exampleRequest LayerTypeIPv4) 2))
   \<and> take 20 (drop 14 (frame (fst (handleListen checkSum_spec CheckTCPIPv4Sum_spec examplePcap
       (NewPacket_plain exampleRequest LayerTypeIPv4) 2))))
       = [0x45, 0, 0x01, 0x68, 0, 0, 0x40, 0, 63, 6, 0xff, 0xff, 192, 168, 1, 10, 203, 0, 113, 5]
   \<and> \<not> ipv4ChecksumVerifies (take 20 (drop 14 (frame (fst (handleListen checkSum_spec
       CheckTCPIPv4Sum_spec examplePcap (NewPacket_plain exampleRequest LayerTypeIPv4) 2)))))
   \<and> \<not> (ipv4ChecksumVerifies (take 20 (drop 14 (frame (fst (handleListen checkSum
              CheckTCPIPv4Sum examplePcap (NewPacket_plain exampleRequest LayerTypeIPv4) 2)))))
        \<and> ipv4ChecksumVerifies (take 20 (drop 14 (frame (fst (handleListen checkSum
              CheckTCPIPv4Sum
              (snd (handleListen checkSum CheckTCPIPv4Sum examplePcap
                      (NewPacket_plain exampleRequest LayerTypeIPv4) 2))
              (NewPacket_plain exampleRequest LayerTypeIPv4) 2))))))"
proof -
  let ?packet = "NewPacket_plain exampleRequest LayerTypeIPv4"
  let ?header = "\<lambda>i. IPv4_header ((createIPv4 [192, 168, 1, 10] [203, 0, 113, 5] i 63)
                          \<lparr>IPv4.Length := 360, IPv4.Checksum := checkSum []\<rparr>)
             [192, 168, 1, 10] [203, 0, 113, 5]"
  have concrete: "isWritten (fst (handleListen checkSum_spec CheckTCPIPv4Sum_spec examplePcap ?packet 2))
     \<and> take 20 (drop 14 (frame (fst (handleListen checkSum_spec CheckTCPIPv4Sum_spec examplePcap
          ?packet 2))))
         = [0x45, 0, 0x01, 0x68, 0, 0, 0x40, 0, 63, 6, 0xff, 0xff, 192, 168, 1, 10, 203, 0, 113, 5]
     \<and> \<not> ipv4ChecksumVerifies (take 20 (drop 14 (frame (fst (handleListen checkSum_spec
          CheckTCPIPv4Sum_spec examplePcap ?packet 2)))))"
    by (simp add: exampleRun checkSum_spec_empty be16_def ipv4ChecksumVerifies_def fold16.simps)
  have first: "handleListen checkSum CheckTCPIPv4Sum examplePcap ?packet 2 =
     (Written 0
        ([2, 0, 0, 0, 0, 254, 2, 0, 0, 0, 0, 1, 0x08, 0x00] @ ?header 0
         @ TCP_header ((createTCP 10000 443 0)
                          \<lparr>TCP.Checksum := CheckTCPIPv4Sum (createTCP 10000 443 0) exampleRequest
                             (createIPv4 [192, 168, 1, 10] [203, 0, 113, 5] 0 63)\<rparr>)
         @ exampleRequest),
      examplePcap\<lparr>seq := 1, id' := 1, nat' := [exampleQuintuple \<mapsto> 2]\<rparr>)"
    using exampleRun_state [where cs = checkSum and tcs = CheckTCPIPv4Sum and s = 0 and i = 0
        and m = Map.empty]
    by (simp add: examplePcap_start)
  have second: "fst (handleListen checkSum CheckTCPIPv4Sum
        (examplePcap\<lparr>seq := 1, id' := 1, nat' := [exampleQuintuple \<mapsto> 2]\<rparr>) ?packet 2) =
     Written 0
        ([2, 0, 0, 0, 0, 254, 2, 0, 0, 0, 0, 1, 0x08, 0x00] @ ?header 1
         @ TCP_header ((createTCP 10000 443 1)
                          \<lparr>TCP.Checksum := CheckTCPIPv4Sum (createTCP 10000 443 1) exampleRequest
                             (createIPv4 [192, 168, 1, 10] [203, 0, 113, 5] 1 63)\<rparr>)
         @ exampleRequest)"
    by (simp add: exampleRun_state)
  have sums: "sum16 (?header i) = 181029 + unat i + unat (checkSum [])" for i
    by (rule exampleHeader_sum)
  have "\<not> (ipv4ChecksumVerifies (?header 0) \<and> ipv4ChecksumVerifies (?header 1))"
  proof
    assume "ipv4ChecksumVerifies (?header 0) \<and> ipv4ChecksumVerifies (?header 1)"
    then have folded0: "fold16 (181029 + unat (checkSum [])) = 65535"
        and folded1: "fold16 (181029 + unat (checkSum []) + 1) = 65535"
      by (simp_all add: ipv4ChecksumVerifies_def sums)
    have zero: "(181029 + unat (checkSum [])) mod 65535 = 0"
      using folded0 by (rule fold16_ones)
    have "((181029 + unat (checkSum [])) + 1) mod 65535 = 0"
      using folded1 by (rule fold16_ones)
    moreover have "((181029 + unat (checkSum [])) + 1) mod 65535
        = ((181029 + unat (checkSum [])) mod 65535 + 1) mod 65535"
      by (simp only: mod_add_left_eq)
    ultimately show False
      using zero by simp
  qed
  then have "\<not> (ipv4ChecksumVerifies (take 20 (drop 14 (frame (fst (handleListen checkSum
              CheckTCPIPv4Sum examplePcap ?packet 2)))))
        \<and> ipv4ChecksumVerifies (take 20 (drop 14 (frame (fst (handleListen checkSum
              CheckTCPIPv4Sum
              (snd (handleListen checkSum CheckTCPIPv4Sum examplePcap ?packet 2))
              ?packet 2))))))"
    by (simp add: first second header_lengths)
  with concrete show ?thesis
    by blast
qed


subsection \<open>The inbound pipeline\<close>

text \<open>
  Claim C4 fails on the code for an encapsulated IPv6 packet. In the source the
  packet decoded as IPv6 is assigned to a new variable of the \<^verbatim>\<open>case 6\<close> block, so the
  transport layer read after the switch is that of the packet decoded as IPv4. On
  the loopback proxy, the answer over IPv6 is decoded as IPv6 for its addresses, and
  the reverse five-tuple of those addresses and of its TCP layer is bound to handle 2
  in the NAT table; but decoded as IPv4 it has no transport layer, and it is dropped
  for a missing transport layer. And the packet that decodes both ways, which as an
  IPv6 packet has no transport layer, is written to the handle bound to the
  five-tuple that mixes its IPv6 addresses with the ports and the type read from it
  as an IPv4 packet.
\<close>

theorem handle_target_ipv6_fails:
  "encappedNetwork NewPacket_plain exampleReply6
     = Inr (LayerTypeIPv6, [0x20, 0x01, 0x0d, 0xb8, 0, 0, 0, 0, 0, 0, 0, 0, 0, 0, 0, 2],
            [0x20, 0x01, 0x0d, 0xb8, 0, 0, 0, 0, 0, 0, 0, 0, 0, 0, 0, 1])
   \<and> map_option
         (reverseQuintuple [0x20, 0x01, 0x0d, 0xb8, 0, 0, 0, 0, 0, 0, 0, 0, 0, 0, 0, 2]
            [0x20, 0x01, 0x0d, 0xb8, 0, 0, 0, 0, 0, 0, 0, 0, 0, 0, 0, 1])
         (Packet.TransportLayer (NewPacket_plain exampleReply6 LayerTypeIPv6))
       = Some exampleQuintuple6
   \<and> Packet.TransportLayer (NewPacket_plain exampleReply6 LayerTypeIPv4) = None
   \<and> handle NewPacket_plain (exampleLoopPcap\<lparr>nat' := [exampleQuintuple6 \<mapsto> 2]\<rparr>)
       (carrierWith (Some exampleReply6))
     = (Dropped MissingTransportLayer, exampleLoopPcap\<lparr>nat' := [exampleQuintuple6 \<mapsto> 2]\<rparr>)
   \<and> Packet.TransportLayer (NewPacket_plain exampleDual LayerTypeIPv6) = None
   \<and> handle NewPacket_plain (exampleLoopPcap\<lparr>nat' := [exampleDualKey \<mapsto> 2]\<rparr>)
       (carrierWith (Some exampleDual))
     = (Written 2 ([0, 0, 0, 0] @ exampleDual), exampleLoopPcap\<lparr>nat' := [exampleDualKey \<mapsto> 2]\<rparr>)"
proof -
  have "encappedNetwork NewPacket_plain exampleReply6
     = Inr (LayerTypeIPv6, [0x20, 0x01, 0x0d, 0xb8, 0, 0, 0, 0, 0, 0, 0, 0, 0, 0, 0, 2],
            [0x20, 0x01, 0x0d, 0xb8, 0, 0, 0, 0, 0, 0, 0, 0, 0, 0, 0, 1])"
    using exampleReply6_as_IPv4(1) by (auto simp: encappedNetwork_def exampleReply6_as_IPv6)
  then show ?thesis
    by (simp add: exampleInbound6 exampleInboundDual exampleDual_as_IPv6 exampleReply6_as_IPv4
        exampleReply6_as_IPv6 reverseQuintuple_def exampleQuintuple6_def ip6_strings)
qed

text \<open>
  Claim C5, as the code has it. For every inbound carrier frame for which the inbound
  pipeline writes a frame, the bytes written are the new link-layer header, then the
  payload of the carrier bit for bit, then, on an Ethernet only, the zero bytes that
  pad a frame shorter than 60 bytes to 60 bytes: the inner packet is not modified.
\<close>

theorem handle_frame_bytes:
  assumes "isWritten (fst (handle NewPacket p packet))"
  shows "\<exists>payload. Packet.ApplicationLayer packet = Some payload
     \<and> frame (fst (handle NewPacket p packet))
         = linkHeader p @ payload @ linkPadding p (length payload)"
proof -
  obtain payload t dstIP srcIP tl link data where
      app: "Packet.ApplicationLayer packet = Some payload"
      and link: "newLink p t = Inr link"
      and ser: "SerializeLayers [link, SPayload payload] = Inr data"
      and run: "handle NewPacket p packet =
         (Written (case nat' p (reverseQuintuple dstIP srcIP tl) of
                     None \<Rightarrow> upHandle p | Some h \<Rightarrow> h) data, p)"
    using handle_Written [OF assms] by blast
  have "data = linkHeader p @ payload @ linkPadding p (length payload)"
    using newLink_cases [OF link] ser
    by (auto simp: SerializeLayers_Loopback SerializeLayers_Ethernet linkHeader_def linkPadding_def
        split: if_splits)
  then show ?thesis
    using app run by simp
qed

theorem handle_frame_bytes_witness:
  "isWritten (fst (handle NewPacket_plain examplePcap (carrierWith (Some exampleReply))))
   \<and> frame (fst (handle NewPacket_plain examplePcap (carrierWith (Some exampleReply))))
       = linkHeader examplePcap @ exampleReply @ linkPadding examplePcap (length exampleReply)"
  using handle_frame_bytes [of NewPacket_plain examplePcap "carrierWith (Some exampleReply)"]
  by (simp add: exampleInbound_miss carrierWith_payload)

text \<open>
  The claim as it was stated has the frame end with the payload. The answer of the
  examples is 40 bytes long: behind an Ethernet header of 14 bytes it is followed by
  six zero bytes.
\<close>

theorem handle_frame_bytes_counterexample:
  "frame (fst (handle NewPacket_plain examplePcap (carrierWith (Some exampleReply))))
     = [2, 0, 0, 0, 0, 254, 2, 0, 0, 0, 0, 1, 0x08, 0x00] @ exampleReply @ [0, 0, 0, 0, 0, 0]
   \<and> frame (fst (handle NewPacket_plain examplePcap (carrierWith (Some exampleReply))))
     \<noteq> [2, 0, 0, 0, 0, 254, 2, 0, 0, 0, 0, 1, 0x08, 0x00] @ exampleReply"
  by (simp add: exampleInbound_miss)





text \<open>
  Claim C10. For every inbound frame that has no application layer (an empty carrier
  segment), the inbound pipeline drops the frame: it writes nothing to any handle,
  and the NAT table and both counters are as they were.
\<close>

theorem handle_empty_payload:
  assumes "Packet.ApplicationLayer packet = None"
  shows "handle NewPacket p packet = (Dropped EmptyPayload, p)"
  using assms by (simp add: handle_def)

theorem handle_empty_payload_witness:
  "Packet.ApplicationLayer (carrierWith None) = None
   \<and> handle NewPacket_plain examplePcap (carrierWith None) = (Dropped EmptyPayload, examplePcap)"
  using handle_empty_payload [of "carrierWith None" NewPacket_plain examplePcap]
  by (simp add: carrierWith_payload)


end
